theory Spec2Isabelle
  imports Main "HOL-Library.Word" "HOL-Library.Char_ord" "HOL-Library.List_Lexorder"
begin

section \<open>Package cube: exporting expvars to a Cube collector\<close>

text \<open>
  A shallow embedding of \<^verbatim>\<open>emitter.go\<close>. The package is glue around the Go standard
  library: \<^verbatim>\<open>expvar\<close> (the process-wide registry of published variables),
  \<^verbatim>\<open>fmt\<close>, \<^verbatim>\<open>strings\<close>, \<^verbatim>\<open>time\<close>, \<^verbatim>\<open>log\<close> and \<^verbatim>\<open>net/http\<close>. Everything the
  package reads or changes is a field of the record \<open>world\<close>, threaded through
  every function; the library calls whose results the package cannot compute itself
  (quoting, time formatting, duration parsing, the outcome of an HTTP POST) are the
  fields of the record \<open>runtime\<close>. Go strings are byte sequences, here \<open>string\<close>.
  The type of \<^verbatim>\<open>time.Time\<close> values (an instant together with its location) is
  the type parameter \<open>'t\<close>. The package runs alone: between two of its steps
  nothing else changes the registry. The response body that a successful
  \<^verbatim>\<open>http.Post\<close> returns is closed before \<open>ExportVariablesWithTimestamp\<close> returns
  (line 119); the world keeps no account of open responses.
\<close>

subsection \<open>Go values\<close>

text \<open>
  What lies behind an error. For the \<^verbatim>\<open>*url.Error\<close> that \<^verbatim>\<open>http.Post\<close> returns it
  is what the error wraps: a failure to connect or to read or write on the connection
  (\<^verbatim>\<open>*net.OpError\<close>), a failed name lookup (\<^verbatim>\<open>*net.DNSError\<close>), a timeout; or a
  URL that \<^verbatim>\<open>http.Post\<close> refuses before it connects anywhere (it does not parse, or
  its scheme is not supported); or the redirect policy, which stops after ten
  redirects, that is after responses were received. Every other error is \<open>Other\<close>.
\<close>

datatype error_cause = Connection | DNS | Timeout | BadURL | Redirect | Other

text \<open>
  A Go \<^verbatim>\<open>error\<close>: its cause and the text its \<^verbatim>\<open>Error()\<close> method returns.
\<close>

datatype go_error = Error (error_cause: error_cause) (error_text: string)

text \<open>A failure at the connection level: a connection error, a DNS failure or a timeout.\<close>

definition connection_level :: "go_error \<Rightarrow> bool" where
  "connection_level err =
     (error_cause err = Connection \<or> error_cause err = DNS \<or> error_cause err = Timeout)"

text \<open>\<^verbatim>\<open>time.Duration\<close> is an \<^verbatim>\<open>int64\<close> count of nanoseconds.\<close>

type_synonym Duration = "64 word"

text \<open>
  One call of \<^verbatim>\<open>http.Post(url, contentType, body)\<close>, and the part of a
  \<^verbatim>\<open>*http.Response\<close> that could matter to a caller.
\<close>

record http_request =
  req_url :: string
  req_contentType :: string
  req_body :: string

record http_response =
  StatusCode :: nat

text \<open>
  An \<^verbatim>\<open>expvar.Var\<close>: anything with a \<^verbatim>\<open>String()\<close> method. An \<^verbatim>\<open>*expvar.Int\<close>
  holds an \<^verbatim>\<open>int64\<close>; every other kind of variable is given by the text its
  \<^verbatim>\<open>String()\<close> returns.
\<close>

datatype Var = IntVar "64 word" | OtherVar string

text \<open>\<^verbatim>\<open>strconv.FormatInt(i, 10)\<close>, which is also what the verb \<^verbatim>\<open>%d\<close> prints.\<close>

fun decimal :: "nat \<Rightarrow> string" where
  "decimal n =
     (if n < 10 then [''0123456789'' ! n]
      else decimal (n div 10) @ [''0123456789'' ! (n mod 10)])"

declare decimal.simps [simp del]

definition FormatInt :: "int \<Rightarrow> string" where
  "FormatInt i = (if i < 0 then CHR ''-'' # decimal (nat (- i)) else decimal (nat i))"

fun Var_String :: "Var \<Rightarrow> string" where
  "Var_String (IntVar v) = FormatInt (sint v)"
| "Var_String (OtherVar s) = s"

text \<open>\<^verbatim>\<open>(*expvar.Int).Add(delta)\<close>: \<^verbatim>\<open>int64\<close> addition, which wraps.\<close>

fun Var_Add :: "64 word \<Rightarrow> Var \<Rightarrow> Var" where
  "Var_Add delta (IntVar v) = IntVar (v + delta)"
| "Var_Add delta (OtherVar s) = OtherVar s"

subsection \<open>The runtime and the world\<close>

text \<open>
  The library functions the package calls and does not define.
  \<^item> \<open>strconv_Quote\<close>: what the verb \<^verbatim>\<open>%q\<close> prints for a string;
  \<^item> \<open>Time_Format t layout\<close>: \<^verbatim>\<open>t.Format(layout)\<close>;
  \<^item> \<open>Time_String\<close>, \<open>Duration_String\<close>: what \<^verbatim>\<open>%v\<close> prints for a time and for
    a duration;
  \<^item> \<open>ParseDuration\<close>: \<^verbatim>\<open>time.ParseDuration\<close>, \<open>Inl\<close> the error;
  \<^item> \<open>http_Post k req\<close>: what \<^verbatim>\<open>http.Post\<close> returns for the request \<open>req\<close> when
    \<open>k\<close> calls were made before it: \<open>Inl\<close> an error, or \<open>Inr\<close> the response.
\<close>

record 't runtime =
  strconv_Quote :: "string \<Rightarrow> string"
  Time_Format :: "'t \<Rightarrow> string \<Rightarrow> string"
  Time_String :: "'t \<Rightarrow> string"
  Duration_String :: "Duration \<Rightarrow> string"
  ParseDuration :: "string \<Rightarrow> go_error + Duration"
  http_Post :: "nat \<Rightarrow> http_request \<Rightarrow> go_error + http_response"

text \<open>
  The state of the process and of what it has done so far: the four flags, the
  \<^verbatim>\<open>expvar\<close> registry in the order \<^verbatim>\<open>expvar.Do\<close> visits it (\<^verbatim>\<open>expvar\<close>
  keeps the names sorted, byte by byte), the system clock (what \<^verbatim>\<open>time.Now()\<close>
  returns: the present instant in the location \<^verbatim>\<open>time.Local\<close>), the lines written by
  \<^verbatim>\<open>log\<close>, and the calls of \<^verbatim>\<open>http.Post\<close>, oldest first.
\<close>

record 't world =
  flagCollectorHost :: string
  flagCollectorPort :: int
  flagExportInterval :: string
  flagExportToCube :: bool
  expvars :: "(string \<times> Var) list"
  system_clock :: 't
  log_output :: "string list"
  http_calls :: "http_request list"

text \<open>\<^verbatim>\<open>time.ANSIC\<close>.\<close>

definition ANSIC :: string where
  "ANSIC = ''Mon Jan _2 15:04:05 2006''"

text \<open>\<^verbatim>\<open>time.Now()\<close>.\<close>

definition time_Now :: "'t world \<Rightarrow> 't \<times> 't world" where
  "time_Now w = (system_clock w, w)"

text \<open>\<^verbatim>\<open>log.Printf\<close>, given the formatted message.\<close>

definition log_Printf :: "string \<Rightarrow> 't world \<Rightarrow> 't world" where
  "log_Printf msg w = w\<lparr>log_output := log_output w @ [msg]\<rparr>"

text \<open>\<^verbatim>\<open>strings.Join\<close>.\<close>

fun strings_Join :: "string list \<Rightarrow> string \<Rightarrow> string" where
  "strings_Join [] sep = []"
| "strings_Join [x] sep = x"
| "strings_Join (x # y # ys) sep = x @ sep @ strings_Join (y # ys) sep"

text \<open>
  \<^verbatim>\<open>expvar.Do(f)\<close> calls \<open>f\<close> on every published variable in turn; the callback
  updates the state \<open>s\<close> it closes over.
\<close>

fun expvar_Do :: "(string \<times> Var \<Rightarrow> 's \<Rightarrow> 's) \<Rightarrow> (string \<times> Var) list \<Rightarrow> 's \<Rightarrow> 's" where
  "expvar_Do f [] s = s"
| "expvar_Do f (entry # entries) s = expvar_Do f entries (f entry s)"

text \<open>
  \<^verbatim>\<open>expvar.NewInt(name)\<close> publishes a new \<^verbatim>\<open>Int\<close> holding 0, at its place in
  the sorted list of names. Publishing a name a second time is a panic
  (\<^verbatim>\<open>log.Panicln\<close>): \<open>Inl\<close> the world at the panic.
\<close>

definition expvar_NewInt :: "string \<Rightarrow> 't world \<Rightarrow> 't world + 't world" where
  "expvar_NewInt name w =
     (if name \<in> fst ` set (expvars w)
      then Inl (log_Printf (''Reuse of exported var name: '' @ name) w)
      else Inr (w\<lparr>expvars := insort_key fst (name, IntVar 0) (expvars w)\<rparr>))"

text \<open>
  \<^verbatim>\<open>v.Add(delta)\<close> for the \<^verbatim>\<open>*expvar.Int\<close> published under \<open>name\<close>: the registry
  holds the pointer, so the update is seen by \<^verbatim>\<open>expvar.Do\<close>.
\<close>

definition vars_Add :: "string \<Rightarrow> 64 word \<Rightarrow> (string \<times> Var) list \<Rightarrow> (string \<times> Var) list" where
  "vars_Add name delta vs = map (\<lambda>(k, v). if k = name then (k, Var_Add delta v) else (k, v)) vs"

definition Int_Add :: "string \<Rightarrow> 64 word \<Rightarrow> 't world \<Rightarrow> 't world" where
  "Int_Add name delta w = w\<lparr>expvars := vars_Add name delta (expvars w)\<rparr>"

subsection \<open>ExportVariablesWithTimestamp and ExportVariables\<close>

text \<open>
  Lines 97 to 100: the slice \<^verbatim>\<open>variables\<close> after \<^verbatim>\<open>expvar.Do\<close>, one
  \<^verbatim>\<open>fmt.Sprintf("%q: %s", entry.Key, entry.Value)\<close> per published variable.
\<close>

definition collect_variables :: "'t runtime \<Rightarrow> (string \<times> Var) list \<Rightarrow> string list" where
  "collect_variables R vs =
     expvar_Do
       (\<lambda>entry variables.
          variables @ [strconv_Quote R (fst entry) @ '': '' @ Var_String (snd entry)])
       vs []"

text \<open>
  Lines 101 to 111: the \<^verbatim>\<open>request\<close> string. The format is a raw string literal:
  its line breaks and tabs are part of it.
\<close>

definition build_request :: "'t runtime \<Rightarrow> string \<Rightarrow> 't \<Rightarrow> string list \<Rightarrow> string" where
  \<open>build_request R collectionType timestamp variables =
     ''['' @ [CHR 0x0A, CHR 0x09, CHR 0x09] @
     ''{'' @ [CHR 0x0A, CHR 0x09, CHR 0x09, CHR 0x09] @
     ''"type": "'' @ collectionType @ ''",'' @ [CHR 0x0A, CHR 0x09, CHR 0x09, CHR 0x09] @
     ''"time": "'' @ Time_Format R timestamp ANSIC @ ''",'' @ [CHR 0x0A, CHR 0x09, CHR 0x09, CHR 0x09] @
     ''"data": { '' @ strings_Join variables '','' @ '' }'' @ [CHR 0x0A, CHR 0x09, CHR 0x09] @
     ''}'' @ [CHR 0x0A, CHR 0x09, CHR 0x09] @
     '']''\<close>

text \<open>
  The result is the returned \<^verbatim>\<open>error\<close> (\<open>None\<close> is \<^verbatim>\<open>nil\<close>) and the world after
  the call.
\<close>

definition ExportVariablesWithTimestamp ::
  "'t runtime \<Rightarrow> string \<Rightarrow> string \<Rightarrow> 't \<Rightarrow> 't world \<Rightarrow> go_error option \<times> 't world" where
  "ExportVariablesWithTimestamp R collectionType putUrl timestamp w =
     (let variables = collect_variables R (expvars w);
          request = build_request R collectionType timestamp variables;
          post = \<lparr>req_url = putUrl, req_contentType = ''application/json'', req_body = request\<rparr>;
          w1 = w\<lparr>http_calls := http_calls w @ [post]\<rparr>
      in case http_Post R (length (http_calls w)) post of
           Inl err \<Rightarrow>
             (Some err,
              log_Printf (''The request we tried to post: '' @ request)
                (log_Printf (''Error POSTing events to Cube collector: '' @ error_text err) w1))
         | Inr response \<Rightarrow> (None, w1))"

definition ExportVariables ::
  "'t runtime \<Rightarrow> string \<Rightarrow> string \<Rightarrow> 't world \<Rightarrow> go_error option \<times> 't world" where
  "ExportVariables R collectionType putUrl w =
     (let (now, w1) = time_Now w
      in ExportVariablesWithTimestamp R collectionType putUrl now w1)"

subsection \<open>Run\<close>

text \<open>
  \<^verbatim>\<open>time.Tick(d)\<close> returns a nil channel when \<open>d \<le> 0\<close>, and ranging over a nil
  channel blocks for ever: then the loop sees no tick. Otherwise it sees the times
  \<open>ticks\<close> the ticker delivers.
\<close>

definition time_Tick :: "Duration \<Rightarrow> 't list \<Rightarrow> 't list" where
  "time_Tick d ticks = (if sint d \<le> 0 then [] else ticks)"

text \<open>
  Lines 74 to 79, run on the ticks received so far; \<open>exportCounter\<close> is the name
  under which the counter is published.
\<close>

fun Run_loop :: "'t runtime \<Rightarrow> string \<Rightarrow> string \<Rightarrow> string \<Rightarrow> 't list \<Rightarrow> 't world \<Rightarrow> 't world" where
  "Run_loop R collectionType putUrl exportCounter [] w = w"
| "Run_loop R collectionType putUrl exportCounter (now # ticks) w =
     (let (err, w1) = ExportVariablesWithTimestamp R collectionType putUrl now w;
          w2 = (case err of
                  Some e \<Rightarrow> log_Printf (''Error exporting variables for '' @ Time_String R now) w1
                | None \<Rightarrow> w1);
          w3 = Int_Add exportCounter 1 w2
      in Run_loop R collectionType putUrl exportCounter ticks w3)"

text \<open>
  How a call of \<^verbatim>\<open>Run\<close> stands once the ticker has delivered \<open>ticks\<close>: it has
  returned, the process has exited with a status (\<^verbatim>\<open>log.Fatalf\<close> calls
  \<^verbatim>\<open>os.Exit(1)\<close>), it has panicked, or it is in the loop, waiting for the next tick.
\<close>

datatype 't run_result =
  Returned "'t world"
| Exited nat "'t world"
| Panicked "'t world"
| Waiting "'t world"

definition Run :: "'t runtime \<Rightarrow> string \<Rightarrow> 't list \<Rightarrow> 't world \<Rightarrow> 't run_result" where
  "Run R collectionType ticks w =
     (if \<not> flagExportToCube w then Returned w
      else
        let putUrl = ''http://'' @ flagCollectorHost w @ '':'' @
                     FormatInt (flagCollectorPort w) @ ''/1.0/event/put'';
            w1 = log_Printf (''Exporting expvars to '' @ putUrl @ '' with event type '' @
                             collectionType) w
        in case ParseDuration R (flagExportInterval w) of
             Inl err \<Rightarrow>
               Exited 1
                 (log_Printf (''Error parsing duration '' @ flagExportInterval w @ '': '' @
                              error_text err) w1)
           | Inr interval \<Rightarrow>
               (let w2 = log_Printf (''Exporting variables every '' @
                                     Duration_String R interval) w1
                in case expvar_NewInt ''CubeExports'' w2 of
                     Inl w3 \<Rightarrow> Panicked w3
                   | Inr w3 \<Rightarrow>
                       Waiting (Run_loop R collectionType putUrl ''CubeExports''
                                  (time_Tick interval ticks) w3)))"

subsection \<open>Reading the state\<close>

text \<open>The value of the \<^verbatim>\<open>*expvar.Int\<close> published under a name, if there is one.\<close>

definition Int_Value :: "string \<Rightarrow> 't world \<Rightarrow> 64 word option" where
  "Int_Value name w =
     (case map_of (expvars w) name of
        Some (IntVar v) \<Rightarrow> Some v
      | Some (OtherVar s) \<Rightarrow> None
      | None \<Rightarrow> None)"

text \<open>The calls of \<^verbatim>\<open>http.Post\<close> made between the world \<open>w\<close> and the later world \<open>w'\<close>.\<close>

definition new_calls :: "'t world \<Rightarrow> 't world \<Rightarrow> http_request list" where
  "new_calls w w' = drop (length (http_calls w)) (http_calls w')"

subsection \<open>JSON texts\<close>

text \<open>
  What it is for a text to be JSON (RFC 8259), as a reader: \<open>parse_json\<close> returns
  the value that a text denotes, and \<open>None\<close> when the text is not JSON. A string is
  kept as it is written between its quotes, escapes included, and a number as its
  text. Bytes above 0x7F are taken as they come: UTF-8 is not checked.
\<close>

datatype json =
  JNull
| JBool bool
| JNumber string
| JString string
| JArray "json list"
| JObject "(string \<times> json) list"

definition is_ws :: "char \<Rightarrow> bool" where
  "is_ws c = (c = CHR '' '' \<or> c = CHR 0x09 \<or> c = CHR 0x0A \<or> c = CHR 0x0D)"

definition skip_ws :: "string \<Rightarrow> string" where
  "skip_ws s = dropWhile is_ws s"

definition is_digit :: "char \<Rightarrow> bool" where
  "is_digit c = (c \<in> set ''0123456789'')"

definition is_hex :: "char \<Rightarrow> bool" where
  "is_hex c = (c \<in> set ''0123456789abcdefABCDEF'')"

text \<open>
  A character that may stand unescaped in a string: not the quote, not the backslash,
  not a control character.
\<close>

definition json_plain :: "char \<Rightarrow> bool" where
  "json_plain c = (c \<noteq> CHR 0x22 \<and> c \<noteq> CHR 0x5C \<and> (32::nat) \<le> of_char c)"

definition simple_escape :: "char \<Rightarrow> bool" where
  "simple_escape e =
     (e \<in> set [CHR 0x22, CHR 0x5C, CHR ''/'', CHR ''b'', CHR ''f'', CHR ''n'', CHR ''r'', CHR ''t''])"

definition escape_ok :: "char \<Rightarrow> string \<Rightarrow> bool" where
  "escape_ok e r =
     (simple_escape e \<or> (e = CHR ''u'' \<and> 4 \<le> length r \<and> list_all is_hex (take 4 r)))"

text \<open>
  The rest of a string after its opening quote: what is written up to the closing
  quote, and the text after it.
\<close>

fun scan_string :: "string \<Rightarrow> (string \<times> string) option" where
  "scan_string [] = None"
| "scan_string (c # cs) =
     (if c = CHR 0x22 then Some ([], cs)
      else if c = CHR 0x5C then
        (case cs of
           [] \<Rightarrow> None
         | e # r \<Rightarrow>
             if escape_ok e r then map_option (apfst (\<lambda>s. c # e # s)) (scan_string r)
             else None)
      else if json_plain c then map_option (apfst ((#) c)) (scan_string cs)
      else None)"

text \<open>A whole text that is one string literal, and what is written between its quotes.\<close>

definition json_string_literal :: "string \<Rightarrow> string option" where
  "json_string_literal s =
     (case s of
        [] \<Rightarrow> None
      | c # cs \<Rightarrow>
          if c = CHR 0x22 then
            (case scan_string cs of
               None \<Rightarrow> None
             | Some (raw, r) \<Rightarrow> if r = [] then Some raw else None)
          else None)"

text \<open>
  Numbers: an optional minus, an integer part without a leading zero, an optional
  fraction, an optional exponent. A number ends where the characters that can stand
  in a number end.
\<close>

datatype num_state = NStart | NMinus | NZero | NInt | NDot | NFrac | NExp | NSign | NExpDigits

definition num_step :: "num_state \<Rightarrow> char \<Rightarrow> num_state option" where
  "num_step st c =
     (case st of
        NStart \<Rightarrow> if c = CHR ''-'' then Some NMinus else if c = CHR ''0'' then Some NZero
                  else if is_digit c then Some NInt else None
      | NMinus \<Rightarrow> if c = CHR ''0'' then Some NZero else if is_digit c then Some NInt else None
      | NZero \<Rightarrow> if c = CHR ''.'' then Some NDot
                 else if c = CHR ''e'' \<or> c = CHR ''E'' then Some NExp else None
      | NInt \<Rightarrow> if is_digit c then Some NInt else if c = CHR ''.'' then Some NDot
                else if c = CHR ''e'' \<or> c = CHR ''E'' then Some NExp else None
      | NDot \<Rightarrow> if is_digit c then Some NFrac else None
      | NFrac \<Rightarrow> if is_digit c then Some NFrac
                 else if c = CHR ''e'' \<or> c = CHR ''E'' then Some NExp else None
      | NExp \<Rightarrow> if c = CHR ''+'' \<or> c = CHR ''-'' then Some NSign
                else if is_digit c then Some NExpDigits else None
      | NSign \<Rightarrow> if is_digit c then Some NExpDigits else None
      | NExpDigits \<Rightarrow> if is_digit c then Some NExpDigits else None)"

fun num_run :: "num_state \<Rightarrow> string \<Rightarrow> num_state option" where
  "num_run st [] = Some st"
| "num_run st (c # cs) = (case num_step st c of None \<Rightarrow> None | Some st' \<Rightarrow> num_run st' cs)"

definition valid_number :: "string \<Rightarrow> bool" where
  "valid_number s =
     (case num_run NStart s of
        None \<Rightarrow> False
      | Some st \<Rightarrow> st = NZero \<or> st = NInt \<or> st = NFrac \<or> st = NExpDigits)"

definition is_numchar :: "char \<Rightarrow> bool" where
  "is_numchar c = (is_digit c \<or> c \<in> set ''+-.eE'')"

definition scan_number :: "string \<Rightarrow> (string \<times> string) option" where
  "scan_number s =
     (if valid_number (takeWhile is_numchar s)
      then Some (takeWhile is_numchar s, dropWhile is_numchar s)
      else None)"

text \<open>A text after which a number ends: the empty one, or one that starts otherwise.\<close>

definition stops_number :: "string \<Rightarrow> bool" where
  "stops_number t = (case t of [] \<Rightarrow> True | c # cs \<Rightarrow> \<not> is_numchar c)"

definition scan_literal :: "string \<Rightarrow> (json \<times> string) option" where
  "scan_literal s =
     (if take 4 s = ''true'' then Some (JBool True, drop 4 s)
      else if take 5 s = ''false'' then Some (JBool False, drop 5 s)
      else if take 4 s = ''null'' then Some (JNull, drop 4 s)
      else None)"

text \<open>
  One value, the elements of an array after its bracket, the members of an object
  after its brace: each returns what it read and the text after it. They are given
  the readers to call for what is nested.
\<close>

definition value_body ::
  "(string \<Rightarrow> ((string \<times> json) list \<times> string) option) \<Rightarrow>
   (string \<Rightarrow> (json list \<times> string) option) \<Rightarrow>
   string \<Rightarrow> (json \<times> string) option" where
  "value_body members elements s =
     (case skip_ws s of
        [] \<Rightarrow> None
      | c # cs \<Rightarrow>
          if c = CHR ''{'' then
            (case skip_ws cs of
               [] \<Rightarrow> None
             | d # ds \<Rightarrow>
                 if d = CHR ''}'' then Some (JObject [], ds)
                 else map_option (apfst JObject) (members cs))
          else if c = CHR ''['' then
            (case skip_ws cs of
               [] \<Rightarrow> None
             | d # ds \<Rightarrow>
                 if d = CHR '']'' then Some (JArray [], ds)
                 else map_option (apfst JArray) (elements cs))
          else if c = CHR 0x22 then map_option (apfst JString) (scan_string cs)
          else if c = CHR ''t'' \<or> c = CHR ''f'' \<or> c = CHR ''n'' then scan_literal (c # cs)
          else map_option (apfst JNumber) (scan_number (c # cs)))"

definition elements_body ::
  "(string \<Rightarrow> (json \<times> string) option) \<Rightarrow>
   (string \<Rightarrow> (json list \<times> string) option) \<Rightarrow>
   string \<Rightarrow> (json list \<times> string) option" where
  "elements_body val elements s =
     (case val s of
        None \<Rightarrow> None
      | Some (v, r) \<Rightarrow>
          (case skip_ws r of
             [] \<Rightarrow> None
           | c # cs \<Rightarrow>
               if c = CHR '','' then map_option (apfst ((#) v)) (elements cs)
               else if c = CHR '']'' then Some ([v], cs)
               else None))"

definition members_body ::
  "(string \<Rightarrow> (json \<times> string) option) \<Rightarrow>
   (string \<Rightarrow> ((string \<times> json) list \<times> string) option) \<Rightarrow>
   string \<Rightarrow> ((string \<times> json) list \<times> string) option" where
  "members_body val members s =
     (case skip_ws s of
        [] \<Rightarrow> None
      | q # ks \<Rightarrow>
          if q = CHR 0x22 then
            (case scan_string ks of
               None \<Rightarrow> None
             | Some (k, r) \<Rightarrow>
                 (case skip_ws r of
                    [] \<Rightarrow> None
                  | c # cs \<Rightarrow>
                      if c = CHR '':'' then
                        (case val cs of
                           None \<Rightarrow> None
                         | Some (v, r') \<Rightarrow>
                             (case skip_ws r' of
                                [] \<Rightarrow> None
                              | d # ds \<Rightarrow>
                                  if d = CHR '','' then
                                    map_option (apfst ((#) (k, v))) (members ds)
                                  else if d = CHR ''}'' then Some ([(k, v)], ds)
                                  else None))
                      else None))
          else None)"

text \<open>
  The readers, tied together. The first argument bounds how many of them may be
  inside one another; each call reads at least one character, and \<open>parse_json\<close>
  starts with the length of the text.
\<close>

fun parse_value :: "nat \<Rightarrow> string \<Rightarrow> (json \<times> string) option"
  and parse_elements :: "nat \<Rightarrow> string \<Rightarrow> (json list \<times> string) option"
  and parse_members :: "nat \<Rightarrow> string \<Rightarrow> ((string \<times> json) list \<times> string) option"
where
  "parse_value 0 s = None"
| "parse_value (Suc n) s = value_body (parse_members n) (parse_elements n) s"
| "parse_elements 0 s = None"
| "parse_elements (Suc n) s = elements_body (parse_value n) (parse_elements n) s"
| "parse_members 0 s = None"
| "parse_members (Suc n) s = members_body (parse_value n) (parse_members n) s"

text \<open>A JSON text is one value, with nothing but white space after it.\<close>

definition parse_json :: "string \<Rightarrow> json option" where
  "parse_json s =
     (case parse_value (length s) s of
        None \<Rightarrow> None
      | Some (j, r) \<Rightarrow> if skip_ws r = [] then Some j else None)"

text \<open>
  The entry of one published variable in \<^verbatim>\<open>data\<close>, read as JSON: the name as
  \<^verbatim>\<open>%q\<close> quotes it is a JSON string and the text of the variable is a JSON text;
  then the member they make, its key what is written between the quotes.
\<close>

definition entry_is_json :: "'t runtime \<Rightarrow> string \<times> Var \<Rightarrow> bool" where
  "entry_is_json R entry =
     (json_string_literal (strconv_Quote R (fst entry)) \<noteq> None
      \<and> parse_json (Var_String (snd entry)) \<noteq> None)"

definition entry_json :: "'t runtime \<Rightarrow> string \<times> Var \<Rightarrow> string \<times> json" where
  "entry_json R entry =
     (the (json_string_literal (strconv_Quote R (fst entry))),
      the (parse_json (Var_String (snd entry))))"

subsection \<open>A concrete runtime and world\<close>

text \<open>
  A small instance on which the theorems below are run. Times are seconds after
  the Unix epoch, in UTC. The library functions are exact on the inputs the examples
  give them: variable names of plain letters, the layout \<^verbatim>\<open>time.ANSIC\<close> and times in
  the first day of 1970, the durations \<^verbatim>\<open>10s\<close>, \<^verbatim>\<open>abc\<close> and \<^verbatim>\<open>1 hour\<close>. The empty
  URL has no scheme: \<^verbatim>\<open>http.Post\<close> refuses it before it connects. For every other
  URL the collector answers every even-numbered call with status 500 and the network
  refuses every odd-numbered one; of the network's error only the last words are kept.
\<close>

definition two_digits :: "nat \<Rightarrow> string" where
  "two_digits n = [''0123456789'' ! (n div 10), ''0123456789'' ! (n mod 10)]"

text \<open>Hours, minutes and seconds of the second \<open>s\<close> of a day, as \<^verbatim>\<open>15:04:05\<close>.\<close>

definition clock_text :: "nat \<Rightarrow> string" where
  "clock_text s =
     two_digits (s div 3600) @ '':'' @ two_digits (s div 60 mod 60) @ '':'' @ two_digits (s mod 60)"

definition example_runtime :: "nat runtime" where
  \<open>example_runtime =
     \<lparr>strconv_Quote = (\<lambda>s. ''"'' @ s @ ''"''),
      Time_Format = (\<lambda>t layout. ''Thu Jan  1 '' @ clock_text t @ '' 1970''),
      Time_String = (\<lambda>t. ''1970-01-01 '' @ clock_text t @ '' +0000 UTC''),
      Duration_String = (\<lambda>d. ''10s''),
      ParseDuration =
        (\<lambda>s. if s = ''10s'' then Inr 10000000000
             else if s = ''1 hour''
             then Inl (Error Other ''time: unknown unit " hour" in duration "1 hour"'')
             else Inl (Error Other (''time: invalid duration "'' @ s @ ''"''))),
      http_Post =
        (\<lambda>k req. if req_url req = []
                then Inl (Error BadURL ''Post "": unsupported protocol scheme ""'')
                else if even k then Inr \<lparr>StatusCode = 500\<rparr>
                else Inl (Error Connection ''connection refused''))\<rparr>\<close>

text \<open>The same runtime with a network that refuses every connection.\<close>

definition refusing_runtime :: "nat runtime" where
  "refusing_runtime =
     example_runtime\<lparr>http_Post := (\<lambda>k req. Inl (Error Connection ''connection refused''))\<rparr>"

definition example_world :: "nat world" where
  \<open>example_world =
     \<lparr>flagCollectorHost = ''localhost'',
      flagCollectorPort = 1080,
      flagExportInterval = ''10s'',
      flagExportToCube = True,
      expvars = [(''cmdline'', OtherVar ''["app"]''), (''hits'', IntVar 7)],
      system_clock = 3,
      log_output = [],
      http_calls = []\<rparr>\<close>

text \<open>A process that has published nothing.\<close>

definition empty_world :: "nat world" where
  "empty_world = example_world\<lparr>expvars := []\<rparr>"

text \<open>
  The same with times that carry their location: an instant (seconds after the Unix
  epoch) and the offset of the location from UTC (seconds east). \<^verbatim>\<open>Format\<close> renders
  the wall clock of the location; the layout \<^verbatim>\<open>time.ANSIC\<close> prints no zone. What
  \<^verbatim>\<open>%v\<close> prints is exact for times in UTC only; the examples log no other time.
\<close>

record zoned_time =
  instant :: int
  utc_offset :: int

definition zoned_runtime :: "zoned_time runtime" where
  "zoned_runtime =
     \<lparr>strconv_Quote = strconv_Quote example_runtime,
      Time_Format = (\<lambda>t layout. Time_Format example_runtime (nat (instant t + utc_offset t)) layout),
      Time_String = (\<lambda>t. Time_String example_runtime (nat (instant t + utc_offset t))),
      Duration_String = Duration_String example_runtime,
      ParseDuration = ParseDuration example_runtime,
      http_Post = http_Post example_runtime\<rparr>"

text \<open>
  A process whose \<^verbatim>\<open>time.Local\<close> is \<open>offset\<close> seconds east of UTC, five seconds after
  the epoch.
\<close>

definition zoned_world :: "int \<Rightarrow> zoned_time world" where
  \<open>zoned_world offset =
     \<lparr>flagCollectorHost = ''localhost'',
      flagCollectorPort = 1080,
      flagExportInterval = ''10s'',
      flagExportToCube = True,
      expvars = [(''cmdline'', OtherVar ''["app"]''), (''hits'', IntVar 7)],
      system_clock = \<lparr>instant = 5, utc_offset = offset\<rparr>,
      log_output = [],
      http_calls = []\<rparr>\<close>

section \<open>Properties\<close>

subsection \<open>Auxiliary facts\<close>

lemma decimal_digit: "n < 10 \<Longrightarrow> decimal n = [''0123456789'' ! n]"
  by (simp add: decimal.simps [of n])

lemma decimal_more: "10 \<le> n \<Longrightarrow> decimal n = decimal (n div 10) @ [''0123456789'' ! (n mod 10)]"
  by (simp add: decimal.simps [of n])

lemma expvar_Do_append:
  "expvar_Do (\<lambda>entry variables. variables @ [g entry]) vs acc = acc @ map g vs"
  by (induction vs arbitrary: acc) simp_all

lemma collect_variables_map:
  "collect_variables R vs =
     map (\<lambda>(name, v). strconv_Quote R name @ '': '' @ Var_String v) vs"
  by (simp add: collect_variables_def expvar_Do_append case_prod_unfold)

lemma ExportVariablesWithTimestamp_calls:
  "http_calls (snd (ExportVariablesWithTimestamp R collectionType putUrl timestamp w)) =
     http_calls w @
       [\<lparr>req_url = putUrl, req_contentType = ''application/json'',
         req_body = build_request R collectionType timestamp
                      (collect_variables R (expvars w))\<rparr>]"
  by (simp add: ExportVariablesWithTimestamp_def Let_def log_Printf_def split: sum.split)

lemma ExportVariablesWithTimestamp_expvars:
  "expvars (snd (ExportVariablesWithTimestamp R collectionType putUrl timestamp w)) = expvars w"
  by (simp add: ExportVariablesWithTimestamp_def Let_def log_Printf_def split: sum.split)

lemma ExportVariablesWithTimestamp_result:
  "fst (ExportVariablesWithTimestamp R collectionType putUrl timestamp w) =
     (case http_Post R (length (http_calls w))
             \<lparr>req_url = putUrl, req_contentType = ''application/json'',
              req_body = build_request R collectionType timestamp
                           (collect_variables R (expvars w))\<rparr> of
        Inl err \<Rightarrow> Some err
      | Inr response \<Rightarrow> None)"
  by (simp add: ExportVariablesWithTimestamp_def Let_def split: sum.split)

lemma new_calls_append:
  "http_calls w' = http_calls w @ cs \<Longrightarrow> new_calls w w' = cs"
  by (simp add: new_calls_def)

lemma new_calls_export:
  "new_calls w (snd (ExportVariablesWithTimestamp R collectionType putUrl timestamp w)) =
     [\<lparr>req_url = putUrl, req_contentType = ''application/json'',
       req_body = build_request R collectionType timestamp
                    (collect_variables R (expvars w))\<rparr>]"
  by (rule new_calls_append) (rule ExportVariablesWithTimestamp_calls)

lemma Var_Add_add: "Var_Add b (Var_Add a v) = Var_Add (a + b) v"
  by (cases v) (simp_all add: add.assoc)

lemma vars_Add_add: "vars_Add c b (vars_Add c a vs) = vars_Add c (a + b) vs"
  by (induction vs) (auto simp: vars_Add_def Var_Add_add)

lemma Var_Add_zero: "Var_Add 0 v = v"
  by (cases v) simp_all

lemma vars_Add_zero: "vars_Add c 0 vs = vs"
  by (induction vs) (auto simp: vars_Add_def Var_Add_zero)

lemma map_of_vars_Add:
  "map_of (vars_Add c d vs) c = map_option (Var_Add d) (map_of vs c)"
  by (induction vs) (auto simp: vars_Add_def)

lemma Int_Value_vars_Add:
  "Int_Value c w = Some v \<Longrightarrow> expvars w' = vars_Add c d (expvars w) \<Longrightarrow>
     Int_Value c w' = Some (v + d)"
  by (auto simp: Int_Value_def map_of_vars_Add split: option.splits Var.splits)

lemma Run_loop_Cons:
  "Run_loop R collectionType putUrl c (now # ticks) w =
     Run_loop R collectionType putUrl c ticks
       (Int_Add c 1
          ((case fst (ExportVariablesWithTimestamp R collectionType putUrl now w) of
              Some e \<Rightarrow> log_Printf (''Error exporting variables for '' @ Time_String R now)
            | None \<Rightarrow> id)
             (snd (ExportVariablesWithTimestamp R collectionType putUrl now w))))"
  by (simp add: case_prod_unfold Let_def split: option.split)

lemma tick_step_expvars:
  "expvars (Int_Add c 1
          ((case r of
              Some e \<Rightarrow> log_Printf msg
            | None \<Rightarrow> id)
             (snd (ExportVariablesWithTimestamp R collectionType putUrl now w)))) =
     vars_Add c 1 (expvars w)"
  by (simp add: Int_Add_def log_Printf_def ExportVariablesWithTimestamp_expvars split: option.split)

lemma tick_step_calls:
  "http_calls (Int_Add c 1
          ((case r of
              Some e \<Rightarrow> log_Printf msg
            | None \<Rightarrow> id)
             (snd (ExportVariablesWithTimestamp R collectionType putUrl now w)))) =
     http_calls w @
       [\<lparr>req_url = putUrl, req_contentType = ''application/json'',
         req_body = build_request R collectionType now (collect_variables R (expvars w))\<rparr>]"
  by (simp add: Int_Add_def log_Printf_def ExportVariablesWithTimestamp_calls split: option.split)

lemma Run_loop_effect:
  "expvars (Run_loop R collectionType putUrl c ticks w) =
     vars_Add c (word_of_nat (length ticks)) (expvars w)
   \<and> http_calls (Run_loop R collectionType putUrl c ticks w) =
     http_calls w @
       map (\<lambda>i. \<lparr>req_url = putUrl, req_contentType = ''application/json'',
                 req_body = build_request R collectionType (ticks ! i)
                   (collect_variables R (vars_Add c (word_of_nat i) (expvars w)))\<rparr>)
         [0..<length ticks]"
proof (induction ticks arbitrary: w)
  case Nil
  show ?case by (simp add: vars_Add_zero)
next
  case (Cons now ticks)
  have upt: "[0..<length (now # ticks)] = 0 # map Suc [0..<length ticks]"
    by (simp add: upt_conv_Cons map_Suc_upt del: upt_Suc)
  show ?case
    unfolding Run_loop_Cons upt
    by (simp add: Cons.IH tick_step_expvars tick_step_calls vars_Add_add vars_Add_zero
          comp_def add.commute del: upt_Suc)
qed

lemma sint_add_of_nat:
  fixes v :: "64 word"
  assumes "sint v + int n < 2 ^ 63"
  shows "sint (v + word_of_nat n) = sint v + int n"
proof -
  have eq: "v + word_of_nat n = word_of_int (sint v + int n)"
    by simp
  have lo: "- (2 ^ 63) \<le> sint v + int n"
    using sint_ge [of v] by simp
  have "sint (word_of_int (sint v + int n) :: 64 word) = signed_take_bit (LENGTH(64) - 1) (sint v + int n)"
    by (rule sint_sbintrunc')
  also have "\<dots> = signed_take_bit 63 (sint v + int n)"
    by simp
  also have "\<dots> = sint v + int n"
    using lo assms by (rule signed_take_bit_int_eq_self)
  finally show ?thesis
    by (simp only: eq)
qed

lemma Int_Value_Run_loop:
  "Int_Value c w = Some v \<Longrightarrow>
     Int_Value c (Run_loop R collectionType putUrl c ticks w) = Some (v + word_of_nat (length ticks))"
  by (rule Int_Value_vars_Add) (simp_all add: Run_loop_effect)

lemma new_calls_Run_loop:
  "new_calls w (Run_loop R collectionType putUrl c ticks w) =
     map (\<lambda>i. \<lparr>req_url = putUrl, req_contentType = ''application/json'',
               req_body = build_request R collectionType (ticks ! i)
                 (collect_variables R (vars_Add c (word_of_nat i) (expvars w)))\<rparr>)
       [0..<length ticks]"
  by (rule new_calls_append) (simp add: Run_loop_effect)

lemma Run_loop_append:
  "Run_loop R collectionType putUrl c (xs @ ys) w =
     Run_loop R collectionType putUrl c ys (Run_loop R collectionType putUrl c xs w)"
  by (induction xs arbitrary: w) (simp_all add: case_prod_unfold Let_def)

lemma Run_enters_loop:
  "flagExportToCube w \<Longrightarrow> ParseDuration R (flagExportInterval w) = Inr d \<Longrightarrow>
   ''CubeExports'' \<notin> fst ` set (expvars w) \<Longrightarrow>
   Run R collectionType ticks w =
     Waiting
       (Run_loop R collectionType
          (''http://'' @ flagCollectorHost w @ '':'' @ FormatInt (flagCollectorPort w) @
           ''/1.0/event/put'')
          ''CubeExports'' (time_Tick d ticks)
          (w\<lparr>log_output := log_output w @
               [''Exporting expvars to http://'' @ flagCollectorHost w @ '':'' @
                  FormatInt (flagCollectorPort w) @ ''/1.0/event/put with event type '' @
                  collectionType,
                ''Exporting variables every '' @ Duration_String R d],
             expvars := insort_key fst (''CubeExports'', IntVar 0) (expvars w)\<rparr>))"
  by (simp add: Run_def Let_def expvar_NewInt_def log_Printf_def)

subsection \<open>Auxiliary facts on JSON texts\<close>

text \<open>
  Reading a text that is followed by more text, and reading with a larger bound,
  give the same value; then the body of a request is read piece by piece.
\<close>

lemma skip_ws_Cons: "skip_ws (c # s) = (if is_ws c then skip_ws s else c # s)"
  by (simp add: skip_ws_def)

lemma skip_ws_Nil [simp]: "skip_ws [] = []"
  by (simp add: skip_ws_def)

lemma skip_ws_idem [simp]: "skip_ws (skip_ws s) = skip_ws s"
  by (simp add: skip_ws_def dropWhile_idem)

lemma skip_ws_append_nonempty:
  "skip_ws s = c # cs \<Longrightarrow> skip_ws (s @ t) = c # cs @ t"
  by (induction s) (auto simp: skip_ws_Cons split: if_splits)

lemma skip_ws_append_all:
  "skip_ws s = [] \<Longrightarrow> skip_ws (s @ t) = skip_ws t"
  by (induction s) (auto simp: skip_ws_Cons split: if_splits)

lemma scan_string_plain:
  "list_all json_plain s \<Longrightarrow> scan_string (s @ CHR 0x22 # t) = Some (s, t)"
  by (induction s) (auto simp: json_plain_def)

lemma escape_ok_append:
  assumes "escape_ok e r"
  shows "escape_ok e (r @ t)"
proof (cases "simple_escape e")
  case True
  then show ?thesis by (simp add: escape_ok_def)
next
  case False
  with assms have u: "e = CHR ''u''" "4 \<le> length r" "list_all is_hex (take 4 r)"
    by (simp_all add: escape_ok_def)
  from u(2) have "take 4 (r @ t) = take 4 r"
    by simp
  with u show ?thesis
    by (simp add: escape_ok_def)
qed

lemma scan_string_append:
  "scan_string s = Some (raw, r) \<Longrightarrow> scan_string (s @ t) = Some (raw, r @ t)"
proof (induction s arbitrary: raw r rule: scan_string.induct)
  case 1
  then show ?case by simp
next
  case (2 c cs)
  show ?case
  proof (cases "c = CHR 0x22")
    case True
    with "2.prems" show ?thesis by simp
  next
    case quote: False
    show ?thesis
    proof (cases "c = CHR 0x5C")
      case True
      with quote "2.prems" obtain e rest where cs: "cs = e # rest"
        by (cases cs) simp_all
      from True quote "2.prems" cs have ok: "escape_ok e rest"
        by (simp split: if_splits)
      with True quote "2.prems" cs obtain raw' where
        inner: "scan_string rest = Some (raw', r)" and raw: "raw = c # e # raw'"
        by (cases "scan_string rest") auto
      have "scan_string (rest @ t) = Some (raw', r @ t)"
        using "2.IH"(1) [OF quote True cs ok inner] .
      then show ?thesis
        using True quote cs raw escape_ok_append [OF ok] by simp
    next
      case False
      with quote "2.prems" have plain: "json_plain c"
        by (simp split: if_splits)
      with False quote "2.prems" obtain raw' where
        inner: "scan_string cs = Some (raw', r)" and raw: "raw = c # raw'"
        by (cases "scan_string cs") auto
      have "scan_string (cs @ t) = Some (raw', r @ t)"
        using "2.IH"(2) [OF quote False plain inner] .
      then show ?thesis
        using quote False plain raw by simp
    qed
  qed
qed

lemma takeWhile_append_stop:
  "dropWhile P s \<noteq> [] \<Longrightarrow> takeWhile P (s @ t) = takeWhile P s"
  by (induction s) auto

lemma dropWhile_append_stop:
  "dropWhile P s \<noteq> [] \<Longrightarrow> dropWhile P (s @ t) = dropWhile P s @ t"
  by (induction s) auto

lemma takeWhile_append_end:
  "dropWhile P s = [] \<Longrightarrow> \<not> P c \<Longrightarrow> takeWhile P (s @ c # t) = s"
  by (induction s) (auto split: if_splits)

lemma dropWhile_append_end:
  "dropWhile P s = [] \<Longrightarrow> dropWhile P (s @ t) = dropWhile P t"
  by (induction s) (auto split: if_splits)

lemma scan_number_append:
  assumes a: "scan_number s = Some (txt, r)" and b: "r \<noteq> [] \<or> stops_number t"
  shows "scan_number (s @ t) = Some (txt, r @ t)"
proof -
  from a have tk: "txt = takeWhile is_numchar s" and r: "r = dropWhile is_numchar s"
    and v: "valid_number (takeWhile is_numchar s)"
    by (auto simp: scan_number_def split: if_splits)
  show ?thesis
  proof (cases "r = []")
    case False
    then show ?thesis
      using tk r v by (simp add: scan_number_def takeWhile_append_stop dropWhile_append_stop)
  next
    case True
    with b have st: "stops_number t" by simp
    from True r have all: "dropWhile is_numchar s = []" by simp
    then have s: "takeWhile is_numchar s = s"
      by (metis takeWhile_dropWhile_id append_Nil2)
    show ?thesis
    proof (cases t)
      case Nil
      then show ?thesis using a by simp
    next
      case (Cons c cs)
      with st have "\<not> is_numchar c" by (simp add: stops_number_def)
      then have tw: "takeWhile is_numchar (s @ t) = s" and dw: "dropWhile is_numchar (s @ t) = t"
        using all Cons by (simp_all add: takeWhile_append_end dropWhile_append_end)
      have v': "valid_number s"
        using v unfolding s .
      have "txt = s"
        using tk unfolding s .
      then show ?thesis
        unfolding scan_number_def tw dw using v' True by simp
    qed
  qed
qed

lemma value_body_skip_ws: "value_body pm pe (skip_ws s) = value_body pm pe s"
  by (simp add: value_body_def)

lemma parse_value_skip_ws: "parse_value n (skip_ws s) = parse_value n s"
  by (cases n) (simp_all add: value_body_skip_ws)

lemma value_body_mono:
  assumes pm: "\<And>s z. pm s = Some z \<Longrightarrow> pm' s = Some z"
    and pe: "\<And>s y. pe s = Some y \<Longrightarrow> pe' s = Some y"
    and ok: "value_body pm pe s = Some x"
  shows "value_body pm' pe' s = Some x"
proof (cases "skip_ws s")
  case Nil
  with ok show ?thesis by (simp add: value_body_def)
next
  case (Cons c cs)
  show ?thesis
  proof (cases "skip_ws cs")
    case Nil
    with ok Cons show ?thesis by (auto simp: value_body_def split: if_splits)
  next
    case inner: (Cons d ds)
    from ok Cons inner show ?thesis
      by (auto simp: value_body_def dest: pm pe split: if_splits)
  qed
qed

lemma elements_body_mono:
  assumes pv: "\<And>s x. pv s = Some x \<Longrightarrow> pv' s = Some x"
    and pe: "\<And>s y. pe s = Some y \<Longrightarrow> pe' s = Some y"
    and ok: "elements_body pv pe s = Some y"
  shows "elements_body pv' pe' s = Some y"
proof -
  from ok obtain v r where v: "pv s = Some (v, r)"
    by (cases "pv s") (auto simp: elements_body_def)
  then have v': "pv' s = Some (v, r)" by (rule pv)
  from ok v obtain c cs where c: "skip_ws r = c # cs"
    by (cases "skip_ws r") (auto simp: elements_body_def)
  from ok v c show ?thesis
    by (auto simp: elements_body_def v' dest: pe split: if_splits)
qed

lemma members_body_mono:
  assumes pv: "\<And>s x. pv s = Some x \<Longrightarrow> pv' s = Some x"
    and pm: "\<And>s z. pm s = Some z \<Longrightarrow> pm' s = Some z"
    and ok: "members_body pv pm s = Some z"
  shows "members_body pv' pm' s = Some z"
proof -
  from ok obtain ks where q: "skip_ws s = CHR 0x22 # ks"
    by (cases "skip_ws s") (auto simp: members_body_def split: if_splits)
  from ok q obtain k r where k: "scan_string ks = Some (k, r)"
    by (cases "scan_string ks") (auto simp: members_body_def)
  from ok q k obtain cs where c: "skip_ws r = CHR '':'' # cs"
    by (cases "skip_ws r") (auto simp: members_body_def split: if_splits)
  from ok q k c obtain v r' where v: "pv cs = Some (v, r')"
    by (cases "pv cs") (auto simp: members_body_def)
  then have v': "pv' cs = Some (v, r')" by (rule pv)
  from ok q k c v obtain d ds where d: "skip_ws r' = d # ds"
    by (cases "skip_ws r'") (auto simp: members_body_def)
  from ok q k c v d show ?thesis
    by (auto simp: members_body_def v' dest: pm split: if_splits)
qed

lemma parse_fuel_Suc:
  "(parse_value n s = Some x \<longrightarrow> parse_value (Suc n) s = Some x)
   \<and> (parse_elements n s = Some y \<longrightarrow> parse_elements (Suc n) s = Some y)
   \<and> (parse_members n s = Some z \<longrightarrow> parse_members (Suc n) s = Some z)"
proof (induction n arbitrary: s x y z)
  case 0
  show ?case by simp
next
  case (Suc n)
  have v: "parse_value (Suc n) s = Some x" if "parse_value n s = Some x" for s x
    using that Suc by blast
  have e: "parse_elements (Suc n) s = Some y" if "parse_elements n s = Some y" for s y
    using that Suc by blast
  have m: "parse_members (Suc n) s = Some z" if "parse_members n s = Some z" for s z
    using that Suc by blast
  show ?case
    using value_body_mono [of "parse_members n" "parse_members (Suc n)"
        "parse_elements n" "parse_elements (Suc n)" s x, OF m e]
      elements_body_mono [of "parse_value n" "parse_value (Suc n)"
        "parse_elements n" "parse_elements (Suc n)" s y, OF v e]
      members_body_mono [of "parse_value n" "parse_value (Suc n)"
        "parse_members n" "parse_members (Suc n)" s z, OF v m]
    by (simp del: parse_value.simps(2) parse_elements.simps(2) parse_members.simps(2)
          add: parse_value.simps(2) [of "Suc n"] parse_elements.simps(2) [of "Suc n"]
            parse_members.simps(2) [of "Suc n"]
            parse_value.simps(2) [of n] parse_elements.simps(2) [of n]
            parse_members.simps(2) [of n])
qed

lemma parse_value_fuel:
  "parse_value n s = Some x \<Longrightarrow> n \<le> m \<Longrightarrow> parse_value m s = Some x"
  by (induction m) (auto simp: le_Suc_eq parse_fuel_Suc simp del: parse_value.simps)

lemma parse_members_fuel:
  "parse_members n s = Some x \<Longrightarrow> n \<le> m \<Longrightarrow> parse_members m s = Some x"
  by (induction m) (auto simp: le_Suc_eq parse_fuel_Suc simp del: parse_members.simps)

lemma take_eq_append:
  "take n s = lit \<Longrightarrow> length lit = n \<Longrightarrow> take n (s @ t) = lit \<and> drop n (s @ t) = drop n s @ t"
  by (metis append_eq_conv_conj append_take_drop_id append.assoc)

lemma scan_literal_append:
  assumes "scan_literal s = Some (j, r)"
  shows "scan_literal (s @ t) = Some (j, r @ t)"
proof -
  have four: "take 4 (take 5 x) = take 4 x" for x :: string
    by simp
  consider (true) "take 4 s = ''true''" "j = JBool True" "r = drop 4 s"
    | (false) "take 5 s = ''false''" "j = JBool False" "r = drop 5 s"
    | (null) "take 4 s = ''null''" "j = JNull" "r = drop 4 s"
    using assms by (auto simp: scan_literal_def split: if_splits)
  then show ?thesis
  proof cases
    case true
    from take_eq_append [OF true(1), of t]
    have a: "take 4 (s @ t) = ''true''" and b: "drop 4 (s @ t) = drop 4 s @ t"
      by simp_all
    show ?thesis
      unfolding scan_literal_def a b true(2,3) by simp
  next
    case false
    from take_eq_append [OF false(1), of t]
    have a: "take 5 (s @ t) = ''false''" and b: "drop 5 (s @ t) = drop 5 s @ t"
      by simp_all
    have "take 4 (s @ t) = take 4 (take 5 (s @ t))"
      by (simp only: four)
    also have "\<dots> = take 4 ''false''"
      by (simp only: a)
    also have "\<dots> = ''fals''"
      by simp
    finally have c: "take 4 (s @ t) = ''fals''" .
    show ?thesis
      unfolding scan_literal_def a b c false(2,3) by simp
  next
    case null
    from take_eq_append [OF null(1), of t]
    have a: "take 4 (s @ t) = ''null''" and b: "drop 4 (s @ t) = drop 4 s @ t"
      by simp_all
    have c: "(take 5 (s @ t) = ''false'') = False"
    proof -
      have "take 5 (s @ t) \<noteq> ''false''"
      proof
        assume f: "take 5 (s @ t) = ''false''"
        have "take 4 (s @ t) = take 4 (take 5 (s @ t))"
          by (simp only: four)
        also have "\<dots> = take 4 ''false''"
          by (simp only: f)
        finally show False
          unfolding a by simp
      qed
      then show ?thesis by (simp only: simp_thms)
    qed
    show ?thesis
      unfolding scan_literal_def a b c null(2,3) by simp
  qed
qed

lemma value_body_append:
  assumes pm: "\<And>s z r. pm s = Some (z, r) \<Longrightarrow> pm (s @ t) = Some (z, r @ t)"
    and pe: "\<And>s y r. pe s = Some (y, r) \<Longrightarrow> pe (s @ t) = Some (y, r @ t)"
    and ok: "value_body pm pe s = Some (j, r)"
    and stop: "r \<noteq> [] \<or> stops_number t"
  shows "value_body pm pe (s @ t) = Some (j, r @ t)"
proof -
  from ok obtain c cs where c: "skip_ws s = c # cs"
    by (cases "skip_ws s") (auto simp: value_body_def)
  then have c': "skip_ws (s @ t) = c # cs @ t"
    by (rule skip_ws_append_nonempty)
  consider (obj) "c = CHR ''{''" | (arr) "c \<noteq> CHR ''{''" "c = CHR ''[''"
    | (str) "c \<noteq> CHR ''{''" "c \<noteq> CHR ''[''" "c = CHR 0x22"
    | (lit) "c \<noteq> CHR ''{''" "c \<noteq> CHR ''[''" "c \<noteq> CHR 0x22"
        "c = CHR ''t'' \<or> c = CHR ''f'' \<or> c = CHR ''n''"
    | (num) "c \<noteq> CHR ''{''" "c \<noteq> CHR ''[''" "c \<noteq> CHR 0x22"
        "\<not> (c = CHR ''t'' \<or> c = CHR ''f'' \<or> c = CHR ''n'')"
    by blast
  then show ?thesis
  proof cases
    case obj
    from ok c obj obtain d ds where d: "skip_ws cs = d # ds"
      by (cases "skip_ws cs") (auto simp: value_body_def)
    then have d': "skip_ws (cs @ t) = d # ds @ t"
      by (rule skip_ws_append_nonempty)
    show ?thesis
    proof (cases "d = CHR ''}''")
      case True
      with ok c obj d c' d' show ?thesis
        by (simp add: value_body_def)
    next
      case False
      with ok c obj d obtain z where z: "pm cs = Some (z, r)" and j: "j = JObject z"
        by (auto simp: value_body_def)
      from pm [OF z] False c' d' obj j show ?thesis
        by (simp add: value_body_def)
    qed
  next
    case arr
    from ok c arr obtain d ds where d: "skip_ws cs = d # ds"
      by (cases "skip_ws cs") (auto simp: value_body_def)
    then have d': "skip_ws (cs @ t) = d # ds @ t"
      by (rule skip_ws_append_nonempty)
    show ?thesis
    proof (cases "d = CHR '']''")
      case True
      with ok c arr d c' d' show ?thesis
        by (simp add: value_body_def)
    next
      case False
      with ok c arr d obtain y where y: "pe cs = Some (y, r)" and j: "j = JArray y"
        by (auto simp: value_body_def)
      from pe [OF y] False c' d' arr j show ?thesis
        by (simp add: value_body_def)
    qed
  next
    case str
    with ok c obtain raw where raw: "scan_string cs = Some (raw, r)" and j: "j = JString raw"
      by (auto simp: value_body_def)
    from scan_string_append [OF raw, of t] str c' j show ?thesis
      by (simp add: value_body_def)
  next
    case lit
    with ok c have "scan_literal (c # cs) = Some (j, r)"
      by (simp add: value_body_def)
    from scan_literal_append [OF this, of t] lit c' show ?thesis
      by (simp add: value_body_def)
  next
    case num
    with ok c obtain tk where tk: "scan_number (c # cs) = Some (tk, r)" and j: "j = JNumber tk"
      by (auto simp: value_body_def)
    from scan_number_append [OF tk stop] num c' j show ?thesis
      by (simp add: value_body_def)
  qed
qed

lemma elements_body_append:
  assumes pv: "\<And>s j r. pv s = Some (j, r) \<Longrightarrow> r \<noteq> [] \<Longrightarrow> pv (s @ t) = Some (j, r @ t)"
    and pe: "\<And>s y r. pe s = Some (y, r) \<Longrightarrow> pe (s @ t) = Some (y, r @ t)"
    and ok: "elements_body pv pe s = Some (y, r)"
  shows "elements_body pv pe (s @ t) = Some (y, r @ t)"
proof -
  from ok obtain v r1 where v: "pv s = Some (v, r1)"
    by (cases "pv s") (auto simp: elements_body_def)
  from ok v obtain c cs where c: "skip_ws r1 = c # cs"
    by (cases "skip_ws r1") (auto simp: elements_body_def)
  then have "r1 \<noteq> []" by auto
  from pv [OF v this] have v': "pv (s @ t) = Some (v, r1 @ t)" .
  from c have c': "skip_ws (r1 @ t) = c # cs @ t"
    by (rule skip_ws_append_nonempty)
  show ?thesis
  proof (cases "c = CHR '',''")
    case True
    with ok v c obtain ys where ys: "pe cs = Some (ys, r)" and y: "y = v # ys"
      by (auto simp: elements_body_def)
    from pe [OF ys] True v' c' y show ?thesis
      by (simp add: elements_body_def)
  next
    case False
    with ok v c v' c' show ?thesis
      by (auto simp: elements_body_def split: if_splits)
  qed
qed

lemma members_body_append:
  assumes pv: "\<And>s j r. pv s = Some (j, r) \<Longrightarrow> r \<noteq> [] \<Longrightarrow> pv (s @ t) = Some (j, r @ t)"
    and pm: "\<And>s z r. pm s = Some (z, r) \<Longrightarrow> pm (s @ t) = Some (z, r @ t)"
    and ok: "members_body pv pm s = Some (z, r)"
  shows "members_body pv pm (s @ t) = Some (z, r @ t)"
proof -
  from ok obtain ks where q: "skip_ws s = CHR 0x22 # ks"
    by (cases "skip_ws s") (auto simp: members_body_def split: if_splits)
  then have q': "skip_ws (s @ t) = CHR 0x22 # ks @ t"
    by (rule skip_ws_append_nonempty)
  from ok q obtain k r0 where k: "scan_string ks = Some (k, r0)"
    by (cases "scan_string ks") (auto simp: members_body_def)
  then have k': "scan_string (ks @ t) = Some (k, r0 @ t)"
    by (rule scan_string_append)
  from ok q k obtain cs where c: "skip_ws r0 = CHR '':'' # cs"
    by (cases "skip_ws r0") (auto simp: members_body_def split: if_splits)
  then have c': "skip_ws (r0 @ t) = CHR '':'' # cs @ t"
    by (rule skip_ws_append_nonempty)
  from ok q k c obtain v r1 where v: "pv cs = Some (v, r1)"
    by (cases "pv cs") (auto simp: members_body_def)
  from ok q k c v obtain d ds where d: "skip_ws r1 = d # ds"
    by (cases "skip_ws r1") (auto simp: members_body_def)
  then have "r1 \<noteq> []" by auto
  from pv [OF v this] have v': "pv (cs @ t) = Some (v, r1 @ t)" .
  from d have d': "skip_ws (r1 @ t) = d # ds @ t"
    by (rule skip_ws_append_nonempty)
  show ?thesis
  proof (cases "d = CHR '',''")
    case True
    with ok q k c v d obtain zs where zs: "pm ds = Some (zs, r)" and z: "z = (k, v) # zs"
      by (auto simp: members_body_def)
    from pm [OF zs] True q' k' c' v' d' z show ?thesis
      by (simp add: members_body_def)
  next
    case False
    with ok q k c v d q' k' c' v' d' show ?thesis
      by (auto simp: members_body_def split: if_splits)
  qed
qed

lemma parse_append_all:
  "(parse_value n s = Some (j, r) \<longrightarrow> r \<noteq> [] \<or> stops_number t \<longrightarrow>
      parse_value n (s @ t) = Some (j, r @ t))
   \<and> (parse_elements n s = Some (y, r) \<longrightarrow> parse_elements n (s @ t) = Some (y, r @ t))
   \<and> (parse_members n s = Some (z, r) \<longrightarrow> parse_members n (s @ t) = Some (z, r @ t))"
proof (induction n arbitrary: s j y z r)
  case 0
  show ?case by simp
next
  case (Suc n)
  have v: "parse_value n (s @ t) = Some (j, r @ t)"
    if "parse_value n s = Some (j, r)" "r \<noteq> []" for s j r
    using that Suc by blast
  have e: "parse_elements n (s @ t) = Some (y, r @ t)"
    if "parse_elements n s = Some (y, r)" for s y r
    using that Suc by blast
  have m: "parse_members n (s @ t) = Some (z, r @ t)"
    if "parse_members n s = Some (z, r)" for s z r
    using that Suc by blast
  show ?case
    using value_body_append [of "parse_members n" t "parse_elements n" s j r, OF m e]
      elements_body_append [of "parse_value n" t "parse_elements n" s y r, OF v e]
      members_body_append [of "parse_value n" t "parse_members n" s z r, OF v m]
    by simp
qed

lemma parse_value_append:
  "parse_value n s = Some (j, r) \<Longrightarrow> r \<noteq> [] \<or> stops_number t \<Longrightarrow>
     parse_value n (s @ t) = Some (j, r @ t)"
  using parse_append_all by blast

lemma parse_members_append:
  "parse_members n s = Some (z, r) \<Longrightarrow> parse_members n (s @ t) = Some (z, r @ t)"
  using parse_append_all by blast

lemma json_string_literalD:
  assumes "json_string_literal s = Some raw"
  obtains q where "s = CHR 0x22 # q" and "scan_string q = Some (raw, [])"
  using assms
  by (cases s) (auto simp: json_string_literal_def split: if_splits option.splits)

lemma parse_jsonD:
  assumes "parse_json s = Some j"
  obtains r where "parse_value (length s) s = Some (j, r)" and "skip_ws r = []"
  using assms
  by (auto simp: parse_json_def split: option.splits if_splits)

lemma parse_value_ws_Cons: "is_ws c \<Longrightarrow> parse_value n (c # s) = parse_value n s"
  using parse_value_skip_ws [of n "c # s"] parse_value_skip_ws [of n s]
  by (simp add: skip_ws_Cons)

lemma members_body_skip_ws: "members_body pv pm (skip_ws s) = members_body pv pm s"
  by (simp add: members_body_def)

lemma parse_members_ws_Cons: "is_ws c \<Longrightarrow> parse_members n (c # s) = parse_members n s"
proof (cases n)
  case 0
  then show ?thesis by simp
next
  case (Suc m)
  assume "is_ws c"
  then have "skip_ws (c # s) = skip_ws s" by (simp add: skip_ws_Cons)
  then show ?thesis
    using members_body_skip_ws [of "parse_value m" "parse_members m" "c # s"]
      members_body_skip_ws [of "parse_value m" "parse_members m" s] Suc
    by simp
qed

text \<open>One entry, followed by a text that starts with a comma or a closing brace.\<close>

lemma members_body_entry:
  assumes key: "json_string_literal (strconv_Quote R name) = Some raw"
    and val: "parse_json (Var_String v) = Some j"
    and fuel: "length (Var_String v) \<le> n"
    and t: "skip_ws t = d # ds" "stops_number t"
  shows "members_body (parse_value n) pm (strconv_Quote R name @ '': '' @ Var_String v @ t) =
           (if d = CHR '','' then map_option (apfst ((#) (raw, j))) (pm ds)
            else if d = CHR ''}'' then Some ([(raw, j)], ds)
            else None)"
proof -
  from key obtain q where q: "strconv_Quote R name = CHR 0x22 # q"
    and scan: "scan_string q = Some (raw, [])"
    by (rule json_string_literalD)
  from val obtain r where pv: "parse_value (length (Var_String v)) (Var_String v) = Some (j, r)"
    and r: "skip_ws r = []"
    by (rule parse_jsonD)
  from pv fuel have "parse_value n (Var_String v) = Some (j, r)"
    by (rule parse_value_fuel)
  then have v: "parse_value n (Var_String v @ t) = Some (j, r @ t)"
    using t(2) by (simp add: parse_value_append)
  have v': "parse_value n (CHR '' '' # Var_String v @ t) = Some (j, r @ t)"
    using v by (simp add: parse_value_ws_Cons is_ws_def)
  have after: "skip_ws (r @ t) = d # ds"
    using r t(1) by (simp add: skip_ws_append_all)
  have k: "scan_string (q @ '': '' @ Var_String v @ t) = Some (raw, '': '' @ Var_String v @ t)"
    using scan_string_append [OF scan, of "'': '' @ Var_String v @ t"] by simp
  show ?thesis
    unfolding members_body_def q
    using k v' after
    by (simp add: skip_ws_Cons is_ws_def)
qed

lemma entries_start_with_quote:
  assumes "list_all (entry_is_json R) vs" "vs \<noteq> []"
  obtains q where "strings_Join (collect_variables R vs) '','' = CHR 0x22 # q"
proof -
  from assms obtain x xs where vs: "vs = x # xs" by (cases vs) auto
  with assms obtain raw where "json_string_literal (strconv_Quote R (fst x)) = Some raw"
    by (auto simp: entry_is_json_def)
  then obtain q where q: "strconv_Quote R (fst x) = CHR 0x22 # q"
    by (auto elim: json_string_literalD)
  show ?thesis
  proof (cases xs)
    case Nil
    with vs q that show ?thesis
      by (simp add: collect_variables_map case_prod_unfold)
  next
    case (Cons y ys)
    with vs q that show ?thesis
      by (simp add: collect_variables_map case_prod_unfold)
  qed
qed

lemma parse_members_entries:
  assumes "list_all (entry_is_json R) vs" "vs \<noteq> []"
    and "length (strings_Join (collect_variables R vs) '','') \<le> n"
  shows "parse_members n (strings_Join (collect_variables R vs) '','' @ CHR '' '' # CHR ''}'' # rest) =
           Some (map (entry_json R) vs, rest)"
  using assms
proof (induction vs arbitrary: n)
  case Nil
  then show ?case by simp
next
  case (Cons x xs)
  obtain name v where x: "x = (name, v)" by (cases x)
  from Cons.prems(1) x obtain raw j where
    key: "json_string_literal (strconv_Quote R name) = Some raw"
    and val: "parse_json (Var_String v) = Some j"
    by (auto simp: entry_is_json_def)
  have ej: "entry_json R x = (raw, j)"
    using key val x by (simp add: entry_json_def)
  show ?case
  proof (cases xs)
    case Nil
    have len: "length (strings_Join (collect_variables R [x]) '','') =
        length (strconv_Quote R name) + 2 + length (Var_String v)"
      using x by (simp add: collect_variables_map)
    with Cons.prems(3) Nil obtain m where n: "n = Suc m" and fuel: "length (Var_String v) \<le> m"
      by (cases n) auto
    have "members_body (parse_value m) (parse_members m)
            (strconv_Quote R name @ '': '' @ Var_String v @ CHR '' '' # CHR ''}'' # rest) =
          Some ([(raw, j)], rest)"
      by (subst members_body_entry [OF key val fuel, where d = "CHR ''}''" and ds = rest])
         (simp_all add: skip_ws_Cons is_ws_def stops_number_def is_numchar_def is_digit_def)
    then show ?thesis
      using Nil n x ej by (simp add: collect_variables_map)
  next
    case ys: (Cons y ys)
    let ?tail = "strings_Join (collect_variables R xs) '',''"
    have join: "strings_Join (collect_variables R (x # xs)) '','' =
        strconv_Quote R name @ '': '' @ Var_String v @ CHR '','' # ?tail"
      using x ys by (simp add: collect_variables_map)
    with Cons.prems(3) obtain m where n: "n = Suc m" and fuel: "length (Var_String v) \<le> m"
      and fuel': "length ?tail \<le> m"
      by (cases n) auto
    have xs: "list_all (entry_is_json R) xs" "xs \<noteq> []"
      using Cons.prems(1) ys by simp_all
    have IH: "parse_members m (?tail @ CHR '' '' # CHR ''}'' # rest) = Some (map (entry_json R) xs, rest)"
      using Cons.IH [OF xs fuel'] .
    have "members_body (parse_value m) (parse_members m)
            (strconv_Quote R name @ '': '' @ Var_String v @
               (CHR '','' # ?tail @ CHR '' '' # CHR ''}'' # rest)) =
          Some ((raw, j) # map (entry_json R) xs, rest)"
      by (subst members_body_entry [OF key val fuel, where d = "CHR '',''"
            and ds = "?tail @ CHR '' '' # CHR ''}'' # rest"])
         (simp_all add: skip_ws_Cons is_ws_def stops_number_def is_numchar_def is_digit_def IH)
    then show ?thesis
      using n ej by (simp add: join)
  qed
qed

lemma parse_value_data:
  assumes ok: "list_all (entry_is_json R) vs"
    and fuel: "length (strings_Join (collect_variables R vs) '','') \<le> n"
  shows "parse_value (Suc (Suc n))
           (CHR '' '' # CHR ''{'' # CHR '' '' #
              strings_Join (collect_variables R vs) '','' @ CHR '' '' # CHR ''}'' # rest) =
         Some (JObject (map (entry_json R) vs), rest)"
proof -
  let ?J = "strings_Join (collect_variables R vs) '',''"
  have ws: "is_ws (CHR '' '')" by (simp add: is_ws_def)
  show ?thesis
  proof (cases vs)
    case Nil
    then show ?thesis
      by (simp add: collect_variables_map value_body_def skip_ws_Cons is_ws_def)
  next
    case (Cons x xs)
    then have ne: "vs \<noteq> []" by simp
    from ok ne obtain q where q: "?J = CHR 0x22 # q"
      by (rule entries_start_with_quote)
    have "parse_members (Suc n) (?J @ CHR '' '' # CHR ''}'' # rest) =
        Some (map (entry_json R) vs, rest)"
      using ok ne fuel by (intro parse_members_entries) simp_all
    then have m: "parse_members (Suc n) (CHR '' '' # ?J @ CHR '' '' # CHR ''}'' # rest) =
        Some (map (entry_json R) vs, rest)"
      by (simp only: parse_members_ws_Cons [OF ws])
    have "value_body (parse_members (Suc n)) (parse_elements (Suc n))
            (CHR ''{'' # CHR '' '' # ?J @ CHR '' '' # CHR ''}'' # rest) =
          Some (JObject (map (entry_json R) vs), rest)"
      unfolding value_body_def
      using m by (simp add: skip_ws_Cons is_ws_def q del: parse_members.simps)
    then have "parse_value (Suc (Suc n))
            (CHR ''{'' # CHR '' '' # ?J @ CHR '' '' # CHR ''}'' # rest) =
          Some (JObject (map (entry_json R) vs), rest)"
      by (simp only: parse_value.simps)
    then show ?thesis
      by (simp only: parse_value_ws_Cons [OF ws])
  qed
qed

lemma parse_value_data_fuel:
  assumes ok: "list_all (entry_is_json R) vs"
    and fuel: "Suc (Suc (length (strings_Join (collect_variables R vs) '',''))) \<le> m"
  shows "parse_value m
           (CHR '' '' # CHR ''{'' # CHR '' '' #
              strings_Join (collect_variables R vs) '','' @ CHR '' '' # CHR ''}'' # rest) =
         Some (JObject (map (entry_json R) vs), rest)"
  using parse_value_data [OF ok order_refl] fuel by (rule parse_value_fuel)

lemma parse_value_request:
  assumes ty: "list_all json_plain collectionType"
    and tm: "list_all json_plain (Time_Format R timestamp ANSIC)"
    and ok: "list_all (entry_is_json R) vs"
    and fuel: "Suc (Suc (length (strings_Join (collect_variables R vs) '',''))) \<le> m"
  shows "parse_value (Suc (Suc (Suc (Suc (Suc (Suc m))))))
           (build_request R collectionType timestamp (collect_variables R vs)) =
         Some (JArray [JObject [(''type'', JString collectionType),
                                (''time'', JString (Time_Format R timestamp ANSIC)),
                                (''data'', JObject (map (entry_json R) vs))]], [])"
  unfolding build_request_def
  using scan_string_plain [OF ty] scan_string_plain [OF tm]
    parse_value_data_fuel [OF ok fuel]
  by (simp add: value_body_def elements_body_def members_body_def skip_ws_Cons is_ws_def
      json_plain_def)

lemma length_build_request:
  "length (build_request R collectionType timestamp variables) =
     length collectionType + length (Time_Format R timestamp ANSIC) +
     length (strings_Join variables '','') + 59"
  by (simp add: build_request_def)

lemma parse_json_request:
  assumes ty: "list_all json_plain collectionType"
    and tm: "list_all json_plain (Time_Format R timestamp ANSIC)"
    and ok: "list_all (entry_is_json R) vs"
  shows "parse_json (build_request R collectionType timestamp (collect_variables R vs)) =
         Some (JArray [JObject [(''type'', JString collectionType),
                                (''time'', JString (Time_Format R timestamp ANSIC)),
                                (''data'', JObject (map (entry_json R) vs))]])"
proof -
  let ?B = "build_request R collectionType timestamp (collect_variables R vs)"
  let ?m = "Suc (Suc (length (strings_Join (collect_variables R vs) '','')))"
  have "parse_value (Suc (Suc (Suc (Suc (Suc (Suc ?m)))))) ?B =
      Some (JArray [JObject [(''type'', JString collectionType),
                             (''time'', JString (Time_Format R timestamp ANSIC)),
                             (''data'', JObject (map (entry_json R) vs))]], [])"
    using ty tm ok order_refl by (rule parse_value_request)
  moreover have "Suc (Suc (Suc (Suc (Suc (Suc ?m))))) \<le> length ?B"
    by (simp add: length_build_request)
  ultimately have "parse_value (length ?B) ?B =
      Some (JArray [JObject [(''type'', JString collectionType),
                             (''time'', JString (Time_Format R timestamp ANSIC)),
                             (''data'', JObject (map (entry_json R) vs))]], [])"
    by (rule parse_value_fuel)
  then show ?thesis
    by (simp add: parse_json_def)
qed

subsection \<open>The concrete runtime\<close>

lemma plain_myevents: "list_all json_plain ''myevents''"
  by (simp add: json_plain_def)

lemma example_time: "Time_Format example_runtime 5 layout = ''Thu Jan  1 00:00:05 1970''"
  by (simp add: example_runtime_def clock_text_def two_digits_def)

lemma example_entries_ok: "list_all (entry_is_json example_runtime) (expvars example_world)"
  by code_simp

lemma example_entries:
  "map (entry_json example_runtime) (expvars example_world) =
     [(''cmdline'', JArray [JString ''app'']), (''hits'', JNumber ''7'')]"
  by code_simp

subsection \<open>The serialized event\<close>

text \<open>
  Claim C1, as amended. Whatever the published variables, the event type and the
  timestamp, the body that \<open>ExportVariablesWithTimestamp\<close> posts is the template of
  lines 102 to 108 with the event type, the rendered time and the entries pasted in:
  one entry per published variable, in the registry's order and separated by commas,
  each the name as \<^verbatim>\<open>%q\<close> quotes it, a colon and a space, and the text of the
  variable as it is. When the event type and the rendered time hold no quote, no
  backslash and no control character, every quoted name is a JSON string and the text
  of every variable is a JSON text, the body is a JSON text: an array of exactly one
  object with the members \<^verbatim>\<open>type\<close>, \<^verbatim>\<open>time\<close> and \<^verbatim>\<open>data\<close>, where \<^verbatim>\<open>data\<close> is an
  object with exactly one member per published variable, its key the quoted name and
  its value what the text of the variable denotes. With no variable published,
  \<^verbatim>\<open>data\<close> is the empty object.
\<close>

theorem serialized_event_is_json:
  \<open>let vs = expvars w;
       entries = map (\<lambda>(name, v). strconv_Quote R name @ '': '' @ Var_String v) vs;
       time = Time_Format R timestamp ANSIC;
       bodies = map req_body
         (new_calls w (snd (ExportVariablesWithTimestamp R collectionType putUrl timestamp w)))
   in bodies =
        [''['' @ [CHR 0x0A, CHR 0x09, CHR 0x09] @
         ''{'' @ [CHR 0x0A, CHR 0x09, CHR 0x09, CHR 0x09] @
         ''"type": "'' @ collectionType @ ''",'' @ [CHR 0x0A, CHR 0x09, CHR 0x09, CHR 0x09] @
         ''"time": "'' @ time @ ''",'' @ [CHR 0x0A, CHR 0x09, CHR 0x09, CHR 0x09] @
         ''"data": { '' @ strings_Join entries '','' @ '' }'' @ [CHR 0x0A, CHR 0x09, CHR 0x09] @
         ''}'' @ [CHR 0x0A, CHR 0x09, CHR 0x09] @
         '']'']
    \<and> length entries = length vs
    \<and> (list_all json_plain collectionType \<and> list_all json_plain time \<and>
        list_all (entry_is_json R) vs \<longrightarrow>
        map parse_json bodies =
          [Some (JArray [JObject [(''type'', JString collectionType),
                                  (''time'', JString time),
                                  (''data'', JObject (map (entry_json R) vs))]])]
        \<and> length (map (entry_json R) vs) = length vs)
    \<and> (list_all json_plain collectionType \<and> list_all json_plain time \<and> vs = [] \<longrightarrow>
        map parse_json bodies =
          [Some (JArray [JObject [(''type'', JString collectionType),
                                  (''time'', JString time),
                                  (''data'', JObject [])]])])\<close>
proof -
  let ?body = "build_request R collectionType timestamp (collect_variables R (expvars w))"
  have shape: "?body =
        ''['' @ [CHR 0x0A, CHR 0x09, CHR 0x09] @
         ''{'' @ [CHR 0x0A, CHR 0x09, CHR 0x09, CHR 0x09] @
         [CHR 0x22] @ ''type'' @ [CHR 0x22] @ '': '' @ [CHR 0x22] @ collectionType @
           [CHR 0x22] @ '','' @ [CHR 0x0A, CHR 0x09, CHR 0x09, CHR 0x09] @
         [CHR 0x22] @ ''time'' @ [CHR 0x22] @ '': '' @ [CHR 0x22] @
           Time_Format R timestamp ANSIC @ [CHR 0x22] @ '','' @
           [CHR 0x0A, CHR 0x09, CHR 0x09, CHR 0x09] @
         [CHR 0x22] @ ''data'' @ [CHR 0x22] @ '': { '' @
           strings_Join (map (\<lambda>(name, v). strconv_Quote R name @ '': '' @ Var_String v)
             (expvars w)) '','' @ '' }'' @ [CHR 0x0A, CHR 0x09, CHR 0x09] @
         ''}'' @ [CHR 0x0A, CHR 0x09, CHR 0x09] @
         '']''"
    by (simp add: build_request_def collect_variables_map)
  have json: "parse_json ?body =
      Some (JArray [JObject [(''type'', JString collectionType),
                             (''time'', JString (Time_Format R timestamp ANSIC)),
                             (''data'', JObject (map (entry_json R) (expvars w)))]])"
    if "list_all json_plain collectionType" "list_all json_plain (Time_Format R timestamp ANSIC)"
      "list_all (entry_is_json R) (expvars w)"
    using that by (rule parse_json_request)
  have json0: "parse_json ?body =
      Some (JArray [JObject [(''type'', JString collectionType),
                             (''time'', JString (Time_Format R timestamp ANSIC)),
                             (''data'', JObject [])]])"
    if "list_all json_plain collectionType" "list_all json_plain (Time_Format R timestamp ANSIC)"
      "expvars w = []"
    using json [OF that(1,2)] that(3) by simp
  show ?thesis
    unfolding Let_def new_calls_export
    using shape json json0 by simp
qed

theorem serialized_event_is_json_witness:
  \<open>map parse_json
     (map req_body
        (new_calls example_world
           (snd (ExportVariablesWithTimestamp example_runtime ''myevents''
                   ''http://localhost:1080/1.0/event/put'' 5 example_world)))) =
   [Some (JArray [JObject [(''type'', JString ''myevents''),
                           (''time'', JString ''Thu Jan  1 00:00:05 1970''),
                           (''data'', JObject [(''cmdline'', JArray [JString ''app'']),
                                               (''hits'', JNumber ''7'')])]])]
   \<and> map parse_json
     (map req_body
        (new_calls empty_world
           (snd (ExportVariablesWithTimestamp example_runtime ''myevents''
                   ''http://localhost:1080/1.0/event/put'' 5 empty_world)))) =
   [Some (JArray [JObject [(''type'', JString ''myevents''),
                           (''time'', JString ''Thu Jan  1 00:00:05 1970''),
                           (''data'', JObject [])]])]\<close>
proof -
  have time_plain: "list_all json_plain (Time_Format example_runtime 5 ANSIC)"
    unfolding example_time by (simp add: json_plain_def)
  have empty: "expvars empty_world = []"
    by (simp add: empty_world_def)
  note a = serialized_event_is_json [where R = example_runtime and w = example_world
      and collectionType = "''myevents''" and timestamp = 5
      and putUrl = "''http://localhost:1080/1.0/event/put''", unfolded Let_def]
  note b = serialized_event_is_json [where R = example_runtime and w = empty_world
      and collectionType = "''myevents''" and timestamp = 5
      and putUrl = "''http://localhost:1080/1.0/event/put''", unfolded Let_def]
  from a plain_myevents time_plain example_entries_ok
  have first: "map parse_json
     (map req_body
        (new_calls example_world
           (snd (ExportVariablesWithTimestamp example_runtime ''myevents''
                   ''http://localhost:1080/1.0/event/put'' 5 example_world)))) =
      [Some (JArray [JObject [(''type'', JString ''myevents''),
                           (''time'', JString (Time_Format example_runtime 5 ANSIC)),
                           (''data'', JObject (map (entry_json example_runtime) (expvars example_world)))]])]"
    by blast
  from b plain_myevents time_plain empty
  have second: "map parse_json
     (map req_body
        (new_calls empty_world
           (snd (ExportVariablesWithTimestamp example_runtime ''myevents''
                   ''http://localhost:1080/1.0/event/put'' 5 empty_world)))) =
      [Some (JArray [JObject [(''type'', JString ''myevents''),
                           (''time'', JString (Time_Format example_runtime 5 ANSIC)),
                           (''data'', JObject [])]])]"
    by blast
  show ?thesis
    unfolding first second example_entries example_time by simp
qed

text \<open>
  Claim C1 as stated holds of every event type. Line 104 pastes the event type between
  quotes with \<^verbatim>\<open>%s\<close>, unescaped: with the event type \<^verbatim>\<open>a"b\<close> the body is not a JSON
  text, and with an event type that closes the object and opens another the body is
  an array of two objects.
\<close>

theorem event_type_with_quote_is_not_json:
  \<open>map parse_json
     (map req_body
        (new_calls empty_world
           (snd (ExportVariablesWithTimestamp example_runtime ''a"b''
                   ''http://localhost:1080/1.0/event/put'' 5 empty_world)))) = [None]
   \<and> map parse_json
     (map req_body
        (new_calls empty_world
           (snd (ExportVariablesWithTimestamp example_runtime ''a"}, {"type": "b''
                   ''http://localhost:1080/1.0/event/put'' 5 empty_world)))) =
     [Some (JArray [JObject [(''type'', JString ''a'')],
                    JObject [(''type'', JString ''b''),
                             (''time'', JString ''Thu Jan  1 00:00:05 1970''),
                             (''data'', JObject [])]])]\<close>
  unfolding new_calls_export
  by code_simp

subsection \<open>What the export returns\<close>

text \<open>
  Claim C2, as amended. \<open>ExportVariablesWithTimestamp\<close> returns an error exactly
  when \<^verbatim>\<open>http.Post\<close> returns one, and then that very error, whatever lies behind it: a
  failure at the connection level, and also a URL that \<^verbatim>\<open>http.Post\<close> refuses before it
  connects, or the redirect limit, reached after responses were received. When
  \<^verbatim>\<open>http.Post\<close> returns a response, the result is \<^verbatim>\<open>nil\<close> whatever the status code
  of the response, 400 and 500 included.
\<close>

theorem export_fails_iff_post_returns_error:
  "let post = \<lparr>req_url = putUrl, req_contentType = ''application/json'',
                req_body = build_request R collectionType timestamp
                             (collect_variables R (expvars w))\<rparr>;
       outcome = http_Post R (length (http_calls w)) post;
       result = fst (ExportVariablesWithTimestamp R collectionType putUrl timestamp w)
   in result = (case outcome of Inl err \<Rightarrow> Some err | Inr response \<Rightarrow> None)
    \<and> (result \<noteq> None) = (\<exists>err. outcome = Inl err)
    \<and> (\<forall>err. (result = Some err) = (outcome = Inl err))
    \<and> (\<forall>err. outcome = Inl err \<and> connection_level err \<longrightarrow> result = Some err)
    \<and> (\<forall>err. outcome = Inl err \<and> error_cause err = BadURL \<longrightarrow> result = Some err)
    \<and> (\<forall>err. outcome = Inl err \<and> error_cause err = Redirect \<longrightarrow> result = Some err)
    \<and> (\<forall>code. outcome = Inr \<lparr>StatusCode = code\<rparr> \<longrightarrow> result = None)"
  unfolding Let_def ExportVariablesWithTimestamp_result
  by (simp split: sum.split)

theorem export_fails_iff_post_returns_error_witness:
  \<open>http_Post example_runtime 0
     \<lparr>req_url = ''http://localhost:1080/1.0/event/put'', req_contentType = ''application/json'',
      req_body = build_request example_runtime ''myevents'' 5
                   (collect_variables example_runtime (expvars example_world))\<rparr> =
     Inr \<lparr>StatusCode = 500\<rparr>
   \<and> fst (ExportVariablesWithTimestamp example_runtime ''myevents''
            ''http://localhost:1080/1.0/event/put'' 5 example_world) = None
   \<and> connection_level (Error Connection ''connection refused'')
   \<and> fst (ExportVariablesWithTimestamp refusing_runtime ''myevents''
            ''http://localhost:1080/1.0/event/put'' 5 example_world) =
       Some (Error Connection ''connection refused'')
   \<and> error_cause (Error BadURL ''Post "": unsupported protocol scheme ""'') = BadURL
   \<and> fst (ExportVariablesWithTimestamp example_runtime ''myevents'' '''' 5 example_world) =
       Some (Error BadURL ''Post "": unsupported protocol scheme ""'')\<close>
  using export_fails_iff_post_returns_error [where R = example_runtime and w = example_world
      and collectionType = "''myevents''" and timestamp = 5
      and putUrl = "''http://localhost:1080/1.0/event/put''"]
    export_fails_iff_post_returns_error [where R = refusing_runtime and w = example_world
      and collectionType = "''myevents''" and timestamp = 5
      and putUrl = "''http://localhost:1080/1.0/event/put''"]
    export_fails_iff_post_returns_error [where R = example_runtime and w = example_world
      and collectionType = "''myevents''" and timestamp = 5
      and putUrl = "''''"]
  by (simp add: Let_def example_runtime_def refusing_runtime_def example_world_def
        connection_level_def)

text \<open>
  Claim C2 as stated has an error returned only when the POST fails at the connection
  level. The empty URL has no scheme: \<^verbatim>\<open>http.Post\<close> returns an error without
  connecting anywhere, and the export returns that error.
\<close>

theorem export_fails_without_connection_failure:
  \<open>http_Post example_runtime 0
     \<lparr>req_url = '''', req_contentType = ''application/json'',
      req_body = build_request example_runtime ''myevents'' 5
                   (collect_variables example_runtime (expvars example_world))\<rparr> =
     Inl (Error BadURL ''Post "": unsupported protocol scheme ""'')
   \<and> fst (ExportVariablesWithTimestamp example_runtime ''myevents'' '''' 5 example_world) =
       Some (Error BadURL ''Post "": unsupported protocol scheme ""'')
   \<and> \<not> connection_level (Error BadURL ''Post "": unsupported protocol scheme ""'')\<close>
  by (simp add: ExportVariablesWithTimestamp_result example_runtime_def example_world_def
        connection_level_def)

subsection \<open>The periodic loop\<close>

text \<open>
  Claim C3. In the loop of \<open>Run\<close> every tick runs one export and then adds one to
  the counter, whether the export returned an error or not (the runtime \<open>R\<close>, and
  with it the outcome of every \<^verbatim>\<open>http.Post\<close>, is arbitrary). With \<open>after m\<close> the
  world once the first \<open>m\<close> of the \<open>n\<close> ticks are handled: the world after tick
  \<open>m + 1\<close> is the world after tick \<open>m\<close>, then the export for that tick, then
  \<^verbatim>\<open>exportCounter.Add(1)\<close>; after the \<open>n\<close> ticks the counter is its first value
  plus \<open>n\<close> in \<^verbatim>\<open>int64\<close> arithmetic, and \<open>n\<close> requests were posted, the one of
  tick \<open>i\<close> (from 0) showing the counter after \<open>i\<close> additions, so the addition
  comes after the export. While the count stays inside \<^verbatim>\<open>int64\<close>, that is below
  \<open>2 ^ 63\<close>, the counter after \<open>m\<close> ticks is its first value plus \<open>m\<close> as an
  integer, and it never decreases from one tick to a later one.
\<close>

theorem Run_loop_counts_every_tick:
  "Int_Value c w = Some v \<Longrightarrow>
   (let n = length ticks;
        after = (\<lambda>m. Run_loop R collectionType putUrl c (take m ticks) w)
    in after n = Run_loop R collectionType putUrl c ticks w
     \<and> Int_Value c (after n) = Some (v + word_of_nat n)
     \<and> (\<forall>m. m < n \<longrightarrow>
           after (Suc m) =
             Int_Add c 1
               ((case fst (ExportVariablesWithTimestamp R collectionType putUrl (ticks ! m) (after m)) of
                   Some e \<Rightarrow> log_Printf (''Error exporting variables for '' @ Time_String R (ticks ! m))
                 | None \<Rightarrow> id)
                  (snd (ExportVariablesWithTimestamp R collectionType putUrl (ticks ! m) (after m)))))
     \<and> new_calls w (after n) =
         map (\<lambda>i. \<lparr>req_url = putUrl, req_contentType = ''application/json'',
                   req_body = build_request R collectionType (ticks ! i)
                     (collect_variables R (vars_Add c (word_of_nat i) (expvars w)))\<rparr>)
           [0..<n]
     \<and> (sint v + int n < 2 ^ 63 \<longrightarrow>
          (\<forall>m. m \<le> n \<longrightarrow>
             map_option sint (Int_Value c (after m)) = Some (sint v + int m))
        \<and> (\<forall>m m'. m \<le> m' \<and> m' \<le> n \<longrightarrow>
             rel_option (\<le>) (map_option sint (Int_Value c (after m)))
               (map_option sint (Int_Value c (after m'))))))"
proof -
  assume v: "Int_Value c w = Some v"
  let ?after = "\<lambda>m. Run_loop R collectionType putUrl c (take m ticks) w"
  have step: "?after (Suc m) =
             Int_Add c 1
               ((case fst (ExportVariablesWithTimestamp R collectionType putUrl (ticks ! m) (?after m)) of
                   Some e \<Rightarrow> log_Printf (''Error exporting variables for '' @ Time_String R (ticks ! m))
                 | None \<Rightarrow> id)
                  (snd (ExportVariablesWithTimestamp R collectionType putUrl (ticks ! m) (?after m))))"
    if "m < length ticks" for m
  proof -
    have "take (Suc m) ticks = take m ticks @ [ticks ! m]"
      using that by (rule take_Suc_conv_app_nth)
    then show ?thesis
      by (simp only: Run_loop_append Run_loop_Cons Run_loop.simps)
  qed
  have signed: "map_option sint (Int_Value c (?after m)) = Some (sint v + int m)"
    if "sint v + int (length ticks) < 2 ^ 63" and "m \<le> length ticks" for m
  proof -
    have "Int_Value c (?after m) = Some (v + word_of_nat (length (take m ticks)))"
      using v by (rule Int_Value_Run_loop)
    moreover have "length (take m ticks) = m"
      using that by simp
    moreover have "sint v + int m < 2 ^ 63"
      using that by simp
    ultimately show ?thesis
      by (simp add: sint_add_of_nat)
  qed
  show ?thesis
    unfolding Let_def
    using step signed by (simp add: Int_Value_Run_loop [OF v] new_calls_Run_loop)
qed

theorem Run_loop_counts_every_tick_witness:
  "(case Run example_runtime ''myevents'' [1, 2, 3, 4, 5] example_world of
      Waiting w' \<Rightarrow>
        (map_option sint (Int_Value ''CubeExports'' w'),
         length (http_calls w'),
         map (take 30) (log_output w'))
    | Returned w' \<Rightarrow> (None, 0, [])
    | Exited status w' \<Rightarrow> (None, 0, [])
    | Panicked w' \<Rightarrow> (None, 0, [])) =
   (Some 5, 5,
    [''Exporting expvars to http://lo'', ''Exporting variables every 10s'',
     ''Error POSTing events to Cube c'', ''The request we tried to post: '',
     ''Error exporting variables for '',
     ''Error POSTing events to Cube c'', ''The request we tried to post: '',
     ''Error exporting variables for ''])"
proof -
  define w0 where "w0 = example_world
    \<lparr>log_output := log_output example_world @
       [''Exporting expvars to http://'' @ flagCollectorHost example_world @ '':'' @
          FormatInt (flagCollectorPort example_world) @ ''/1.0/event/put with event type '' @
          ''myevents'',
        ''Exporting variables every '' @ Duration_String example_runtime 10000000000],
      expvars := insort_key fst (''CubeExports'', IntVar 0) (expvars example_world)\<rparr>"
  define url where "url = ''http://'' @ flagCollectorHost example_world @ '':'' @
      FormatInt (flagCollectorPort example_world) @ ''/1.0/event/put''"
  have url: "url = ''http://localhost:1080/1.0/event/put''"
    by (simp add: url_def example_world_def FormatInt_def decimal_digit decimal_more)
  have tick: "time_Tick (10000000000 :: Duration) ticks = ticks" for ticks :: "nat list"
    by (simp add: time_Tick_def)
  have run: "Run example_runtime ''myevents'' [1, 2, 3, 4, 5] example_world =
      Waiting (Run_loop example_runtime ''myevents'' url ''CubeExports'' [1, 2, 3, 4, 5] w0)"
    unfolding w0_def url_def
    by (subst Run_enters_loop [where d = 10000000000])
       (simp_all add: example_world_def example_runtime_def tick)
  have start: "Int_Value ''CubeExports'' w0 = Some 0"
    by (simp add: w0_def Int_Value_def example_world_def)
  have counter: "map_option sint (Int_Value ''CubeExports''
      (Run_loop example_runtime ''myevents'' url ''CubeExports'' [1, 2, 3, 4, 5] w0)) = Some 5"
    using Run_loop_counts_every_tick [OF start, where R = example_runtime
        and ticks = "[1, 2, 3, 4, 5]" and collectionType = "''myevents''" and putUrl = url]
    by (simp add: Let_def)
  have calls: "length (http_calls
      (Run_loop example_runtime ''myevents'' url ''CubeExports'' [1, 2, 3, 4, 5] w0)) = 5"
    unfolding Run_loop_effect [THEN conjunct2]
    by (simp add: w0_def example_world_def)
  have log: "map (take 30) (log_output
      (Run_loop example_runtime ''myevents'' url ''CubeExports'' [1, 2, 3, 4, 5] w0)) =
    [''Exporting expvars to http://lo'', ''Exporting variables every 10s'',
     ''Error POSTing events to Cube c'', ''The request we tried to post: '',
     ''Error exporting variables for '',
     ''Error POSTing events to Cube c'', ''The request we tried to post: '',
     ''Error exporting variables for '']"
    by (simp add: Let_def w0_def url example_world_def example_runtime_def
          ExportVariablesWithTimestamp_def Int_Add_def log_Printf_def)
  show ?thesis
    by (simp only: run run_result.case counter calls log)
qed

subsection \<open>A failing export\<close>

text \<open>
  Claim C4, as amended. When \<^verbatim>\<open>http.Post\<close> fails, \<open>ExportVariablesWithTimestamp\<close>
  returns the error of \<^verbatim>\<open>http.Post\<close> itself, unchanged. The request that was
  attempted is not part of the returned error: it is written to the log, after a line
  with the error. Nothing else changes but the record of the call. A second call that
  fails as well returns its error and logs the request in the same way. The function
  is total: in every world it returns, it has no panic of its own.
\<close>

theorem failing_export_returns_error_and_logs_request:
  "let request = build_request R collectionType timestamp (collect_variables R (expvars w));
       post = \<lparr>req_url = putUrl, req_contentType = ''application/json'', req_body = request\<rparr>;
       k = length (http_calls w);
       first = ExportVariablesWithTimestamp R collectionType putUrl timestamp w;
       second = ExportVariablesWithTimestamp R collectionType putUrl timestamp (snd first)
   in (http_Post R k post = Inl err \<longrightarrow>
         first =
           (Some err,
            w\<lparr>http_calls := http_calls w @ [post],
              log_output := log_output w @
                [''Error POSTing events to Cube collector: '' @ error_text err,
                 ''The request we tried to post: '' @ request]\<rparr>))
    \<and> (http_Post R k post = Inl err \<and> http_Post R (Suc k) post = Inl err' \<longrightarrow>
         second =
           (Some err',
            w\<lparr>http_calls := http_calls w @ [post, post],
              log_output := log_output w @
                [''Error POSTing events to Cube collector: '' @ error_text err,
                 ''The request we tried to post: '' @ request,
                 ''Error POSTing events to Cube collector: '' @ error_text err',
                 ''The request we tried to post: '' @ request]\<rparr>))"
  by (simp add: Let_def ExportVariablesWithTimestamp_def log_Printf_def)

theorem failing_export_returns_error_and_logs_request_witness:
  \<open>fst (ExportVariablesWithTimestamp refusing_runtime ''myevents''
          ''http://localhost:1080/1.0/event/put'' 5 empty_world) =
     Some (Error Connection ''connection refused'')
   \<and> log_output (snd (ExportVariablesWithTimestamp refusing_runtime ''myevents''
          ''http://localhost:1080/1.0/event/put'' 5 empty_world)) =
       [''Error POSTing events to Cube collector: connection refused'',
        ''The request we tried to post: ['' @ [CHR 0x0A, CHR 0x09, CHR 0x09] @
         ''{'' @ [CHR 0x0A, CHR 0x09, CHR 0x09, CHR 0x09] @
         ''"type": "myevents",'' @ [CHR 0x0A, CHR 0x09, CHR 0x09, CHR 0x09] @
         ''"time": "Thu Jan  1 00:00:05 1970",'' @ [CHR 0x0A, CHR 0x09, CHR 0x09, CHR 0x09] @
         ''"data": {  }'' @ [CHR 0x0A, CHR 0x09, CHR 0x09] @
         ''}'' @ [CHR 0x0A, CHR 0x09, CHR 0x09] @
         '']'']
   \<and> fst (ExportVariablesWithTimestamp refusing_runtime ''myevents''
          ''http://localhost:1080/1.0/event/put'' 5
          (snd (ExportVariablesWithTimestamp refusing_runtime ''myevents''
                  ''http://localhost:1080/1.0/event/put'' 5 empty_world))) =
     Some (Error Connection ''connection refused'')\<close>
proof -
  have post: "http_Post refusing_runtime k req = Inl (Error Connection ''connection refused'')" for k req
    by (simp add: refusing_runtime_def)
  have time: "Time_Format refusing_runtime 5 layout = ''Thu Jan  1 00:00:05 1970''" for layout
    by (simp add: refusing_runtime_def example_runtime_def clock_text_def two_digits_def)
  have vars: "expvars empty_world = []" and log: "log_output empty_world = []"
    by (simp_all add: empty_world_def example_world_def)
  note claim = failing_export_returns_error_and_logs_request [where R = refusing_runtime
      and w = empty_world and collectionType = "''myevents''" and timestamp = 5
      and putUrl = "''http://localhost:1080/1.0/event/put''"
      and err = "Error Connection ''connection refused''" and err' = "Error Connection ''connection refused''",
      unfolded Let_def]
  have first: "ExportVariablesWithTimestamp refusing_runtime ''myevents''
        ''http://localhost:1080/1.0/event/put'' 5 empty_world =
      (Some (Error Connection ''connection refused''),
       empty_world
         \<lparr>http_calls := http_calls empty_world @
            [\<lparr>req_url = ''http://localhost:1080/1.0/event/put'',
              req_contentType = ''application/json'',
              req_body = build_request refusing_runtime ''myevents'' 5
                (collect_variables refusing_runtime (expvars empty_world))\<rparr>],
          log_output := log_output empty_world @
            [''Error POSTing events to Cube collector: '' @
               error_text (Error Connection ''connection refused''),
             ''The request we tried to post: '' @
               build_request refusing_runtime ''myevents'' 5
                 (collect_variables refusing_runtime (expvars empty_world))]\<rparr>)"
    using claim post by blast
  have second: "fst (ExportVariablesWithTimestamp refusing_runtime ''myevents''
        ''http://localhost:1080/1.0/event/put'' 5
        (snd (ExportVariablesWithTimestamp refusing_runtime ''myevents''
                ''http://localhost:1080/1.0/event/put'' 5 empty_world))) =
      Some (Error Connection ''connection refused'')"
    using claim post by (metis fst_conv)
  show ?thesis
    unfolding second
    by (simp add: first time vars log build_request_def collect_variables_def)
qed

text \<open>
  Claim C4 as stated has the returned error carry the request that was attempted. It
  does not: against a network that refuses every connection, a process with two
  published variables and a process with none post different requests, and both get
  back the same error, the one \<^verbatim>\<open>http.Post\<close> returned.
\<close>

theorem returned_error_does_not_carry_request:
  "fst (ExportVariablesWithTimestamp refusing_runtime ''myevents''
          ''http://localhost:1080/1.0/event/put'' 5 example_world) =
     Some (Error Connection ''connection refused'')
   \<and> fst (ExportVariablesWithTimestamp refusing_runtime ''myevents''
          ''http://localhost:1080/1.0/event/put'' 5 empty_world) =
     Some (Error Connection ''connection refused'')
   \<and> map req_body (new_calls example_world
         (snd (ExportVariablesWithTimestamp refusing_runtime ''myevents''
                 ''http://localhost:1080/1.0/event/put'' 5 example_world))) \<noteq>
     map req_body (new_calls empty_world
         (snd (ExportVariablesWithTimestamp refusing_runtime ''myevents''
                 ''http://localhost:1080/1.0/event/put'' 5 empty_world)))"
  by (simp add: new_calls_export ExportVariablesWithTimestamp_result
        refusing_runtime_def example_runtime_def empty_world_def example_world_def
        build_request_def collect_variables_map)

subsection \<open>Run with the export switched off\<close>

text \<open>
  Claim C6. When the flag \<^verbatim>\<open>cube_export\<close> is false, \<open>Run\<close> returns at once,
  whatever ticks a ticker would deliver, and leaves the world as it was: no call of
  \<^verbatim>\<open>http.Post\<close>, no log line, no variable published.
\<close>

theorem Run_disabled_returns_immediately:
  "\<not> flagExportToCube w \<Longrightarrow>
     Run R collectionType ticks w = Returned w
   \<and> (\<forall>w'. Run R collectionType ticks w = Returned w' \<longrightarrow> new_calls w w' = [])"
  by (simp add: Run_def new_calls_def)

theorem Run_disabled_returns_immediately_witness:
  "\<not> flagExportToCube (example_world\<lparr>flagExportToCube := False\<rparr>)
   \<and> Run example_runtime ''myevents'' [1, 2, 3] (example_world\<lparr>flagExportToCube := False\<rparr>) =
       Returned (example_world\<lparr>flagExportToCube := False\<rparr>)"
  using Run_disabled_returns_immediately [where R = example_runtime
      and w = "example_world\<lparr>flagExportToCube := False\<rparr>"
      and collectionType = "''myevents''" and ticks = "[1, 2, 3]"]
  by simp

text \<open>
  Claim C10. When the flag \<^verbatim>\<open>cube_export\<close> is false, \<open>Run\<close> returns before
  \<^verbatim>\<open>time.ParseDuration\<close> is called: with an interval that does not parse, \<open>Run\<close>
  still returns, the process does not exit, and the result is the same whatever
  \<^verbatim>\<open>time.ParseDuration\<close> would have answered.
\<close>

theorem disabled_check_precedes_interval_parsing:
  "\<not> flagExportToCube w \<Longrightarrow> ParseDuration R (flagExportInterval w) = Inl err \<Longrightarrow>
     Run R collectionType ticks w = Returned w
   \<and> (\<forall>status w'. Run R collectionType ticks w \<noteq> Exited status w')
   \<and> Run (R\<lparr>ParseDuration := parse\<rparr>) collectionType ticks w = Run R collectionType ticks w"
  by (simp add: Run_def)

theorem disabled_check_precedes_interval_parsing_witness:
  \<open>ParseDuration example_runtime
      (flagExportInterval (example_world\<lparr>flagExportToCube := False, flagExportInterval := ''1 hour''\<rparr>)) =
     Inl (Error Other ''time: unknown unit " hour" in duration "1 hour"'')
   \<and> Run example_runtime ''myevents'' [1]
       (example_world\<lparr>flagExportToCube := False, flagExportInterval := ''1 hour''\<rparr>) =
     Returned (example_world\<lparr>flagExportToCube := False, flagExportInterval := ''1 hour''\<rparr>)\<close>
  using disabled_check_precedes_interval_parsing [where R = example_runtime
      and w = "example_world\<lparr>flagExportToCube := False, flagExportInterval := ''1 hour''\<rparr>"
      and err = "Error Other (''time: unknown unit '' @ [CHR 0x22] @ '' hour'' @ [CHR 0x22] @
                   '' in duration '' @ [CHR 0x22] @ ''1 hour'' @ [CHR 0x22])"
      and collectionType = "''myevents''" and ticks = "[1]"]
  by (simp add: example_runtime_def)

subsection \<open>A malformed interval\<close>

text \<open>
  Claim C5, as amended. When the flag \<^verbatim>\<open>cube_export\<close> is true and the interval
  string does not parse, \<open>Run\<close> logs the URL, then the parse error with
  \<^verbatim>\<open>log.Fatalf\<close>, which ends the process with status 1. This is before the counter is
  published and before the ticker exists: whatever the ticks, there is no call of
  \<^verbatim>\<open>http.Post\<close> and the registry is as it was.
\<close>

theorem malformed_interval_is_fatal_when_enabled:
  "flagExportToCube w \<Longrightarrow> ParseDuration R (flagExportInterval w) = Inl err \<Longrightarrow>
   (let w' = w\<lparr>log_output := log_output w @
                 [''Exporting expvars to http://'' @ flagCollectorHost w @ '':'' @
                    FormatInt (flagCollectorPort w) @ ''/1.0/event/put with event type '' @
                    collectionType,
                  ''Error parsing duration '' @ flagExportInterval w @ '': '' @
                    error_text err]\<rparr>
    in Run R collectionType ticks w = Exited 1 w'
     \<and> new_calls w w' = []
     \<and> expvars w' = expvars w)"
  by (simp add: Run_def Let_def log_Printf_def new_calls_def)

theorem malformed_interval_is_fatal_when_enabled_witness:
  \<open>flagExportToCube (example_world\<lparr>flagExportInterval := ''abc''\<rparr>)
   \<and> ParseDuration example_runtime ''abc'' = Inl (Error Other ''time: invalid duration "abc"'')
   \<and> Run example_runtime ''myevents'' [1, 2, 3] (example_world\<lparr>flagExportInterval := ''abc''\<rparr>) =
       Exited 1
         (example_world
            \<lparr>flagExportInterval := ''abc'',
             log_output :=
               [''Exporting expvars to http://localhost:1080/1.0/event/put with event type myevents'',
                ''Error parsing duration abc: time: invalid duration "abc"'']\<rparr>)\<close>
  using malformed_interval_is_fatal_when_enabled [where R = example_runtime
      and w = "example_world\<lparr>flagExportInterval := ''abc''\<rparr>"
      and err = "Error Other (''time: invalid duration '' @ [CHR 0x22] @ ''abc'' @ [CHR 0x22])"
      and collectionType = "''myevents''" and ticks = "[1, 2, 3]"]
  by (simp add: Let_def example_runtime_def example_world_def FormatInt_def decimal_digit decimal_more)

text \<open>
  Claim C5 as stated speaks of every interval string that does not parse. With the
  flag \<^verbatim>\<open>cube_export\<close> false, \<open>Run\<close> returns before it parses the interval:
  with the interval \<^verbatim>\<open>abc\<close> it returns normally and the process does not exit.
\<close>

theorem malformed_interval_ignored_when_disabled:
  \<open>ParseDuration example_runtime ''abc'' = Inl (Error Other ''time: invalid duration "abc"'')
   \<and> Run example_runtime ''myevents'' [1, 2, 3]
       (example_world\<lparr>flagExportInterval := ''abc'', flagExportToCube := False\<rparr>) =
     Returned (example_world\<lparr>flagExportInterval := ''abc'', flagExportToCube := False\<rparr>)\<close>
  by (simp add: Run_def example_runtime_def)

subsection \<open>The rendered timestamp\<close>

text \<open>
  Claim C7, as amended. The \<^verbatim>\<open>time\<close> string of the posted event is
  \<^verbatim>\<open>timestamp.Format(time.ANSIC)\<close>: the \<^verbatim>\<open>time.Time\<close> value, an instant in a
  location, rendered in the one layout \<^verbatim>\<open>Mon Jan _2 15:04:05 2006\<close>, which prints no
  zone. Two exports of the same \<^verbatim>\<open>time.Time\<close> value, event type and published
  variables post the same body, and so the same \<^verbatim>\<open>time\<close> string, whatever else differs
  between the two: the flags, the log, the earlier calls and what the network
  answered, the URL. The same holds of \<open>ExportVariables\<close> when \<^verbatim>\<open>time.Now()\<close> is the
  same value in both. Where the body is a JSON text, the member \<^verbatim>\<open>time\<close> of its object
  is that string.
\<close>

theorem rendered_time_deterministic:
  \<open>expvars w1 = expvars w2 \<Longrightarrow>
   (let time = Time_Format R timestamp ''Mon Jan _2 15:04:05 2006'';
        body1 = map req_body
          (new_calls w1 (snd (ExportVariablesWithTimestamp R collectionType url1 timestamp w1)));
        body2 = map req_body
          (new_calls w2 (snd (ExportVariablesWithTimestamp R collectionType url2 timestamp w2)));
        now1 = map req_body (new_calls w1 (snd (ExportVariables R collectionType url1 w1)));
        now2 = map req_body (new_calls w2 (snd (ExportVariables R collectionType url2 w2)))
    in body1 = body2
     \<and> body1 =
         [(''['' @ [CHR 0x0A, CHR 0x09, CHR 0x09] @
           ''{'' @ [CHR 0x0A, CHR 0x09, CHR 0x09, CHR 0x09] @
           ''"type": "'' @ collectionType @ ''",'' @ [CHR 0x0A, CHR 0x09, CHR 0x09, CHR 0x09] @
           ''"time": "'') @
          time @
          (''",'' @ [CHR 0x0A, CHR 0x09, CHR 0x09, CHR 0x09] @
           ''"data": { '' @ strings_Join (collect_variables R (expvars w1)) '','' @ '' }'' @
             [CHR 0x0A, CHR 0x09, CHR 0x09] @
           ''}'' @ [CHR 0x0A, CHR 0x09, CHR 0x09] @
           '']'')]
     \<and> (system_clock w1 = system_clock w2 \<longrightarrow> now1 = now2)
     \<and> (list_all json_plain collectionType \<and> list_all json_plain time \<and>
         list_all (entry_is_json R) (expvars w1) \<longrightarrow>
         map parse_json body1 =
           [Some (JArray [JObject [(''type'', JString collectionType),
                                   (''time'', JString time),
                                   (''data'', JObject (map (entry_json R) (expvars w1)))]])]
         \<and> map parse_json body2 = map parse_json body1))\<close>
proof -
  assume vars: "expvars w1 = expvars w2"
  have now: "new_calls v (snd (ExportVariables R collectionType url v)) =
      new_calls v (snd (ExportVariablesWithTimestamp R collectionType url (system_clock v) v))"
    for v :: "'a world" and url
    by (simp add: ExportVariables_def time_Now_def)
  have json: "parse_json (build_request R collectionType timestamp
        (collect_variables R (expvars w2))) =
      Some (JArray [JObject [(''type'', JString collectionType),
                             (''time'', JString (Time_Format R timestamp ANSIC)),
                             (''data'', JObject (map (entry_json R) (expvars w2)))]])"
    if "list_all json_plain collectionType" "list_all json_plain (Time_Format R timestamp ANSIC)"
      "list_all (entry_is_json R) (expvars w2)"
    using that by (rule parse_json_request)
  have shape: "build_request R collectionType timestamp (collect_variables R (expvars w2)) =
         (''['' @ [CHR 0x0A, CHR 0x09, CHR 0x09] @
           ''{'' @ [CHR 0x0A, CHR 0x09, CHR 0x09, CHR 0x09] @
           [CHR 0x22] @ ''type'' @ [CHR 0x22] @ '': '' @ [CHR 0x22] @ collectionType @
           [CHR 0x22] @ '','' @ [CHR 0x0A, CHR 0x09, CHR 0x09, CHR 0x09] @
           [CHR 0x22] @ ''time'' @ [CHR 0x22] @ '': '' @ [CHR 0x22]) @
          Time_Format R timestamp ANSIC @
          ([CHR 0x22] @ '','' @ [CHR 0x0A, CHR 0x09, CHR 0x09, CHR 0x09] @
           [CHR 0x22] @ ''data'' @ [CHR 0x22] @ '': { '' @
           strings_Join (collect_variables R (expvars w2)) '','' @ '' }'' @
             [CHR 0x0A, CHR 0x09, CHR 0x09] @
           ''}'' @ [CHR 0x0A, CHR 0x09, CHR 0x09] @
           '']'')"
    by (simp add: build_request_def)
  have layout: "''Mon Jan _2 15:04:05 2006'' = ANSIC"
    by (simp add: ANSIC_def)
  show ?thesis
    unfolding Let_def now new_calls_export vars layout
    using shape json by simp
qed

theorem rendered_time_deterministic_witness:
  \<open>map req_body
     (new_calls example_world
        (snd (ExportVariablesWithTimestamp example_runtime ''myevents''
                ''http://localhost:1080/1.0/event/put'' 7 example_world))) =
   map req_body
     (new_calls (example_world\<lparr>system_clock := 9, flagCollectorHost := ''cube.example.org'',
                   log_output := [''started''], http_calls := []\<rparr>)
        (snd (ExportVariablesWithTimestamp example_runtime ''myevents''
                ''http://cube.example.org:1080/1.0/event/put'' 7
                (example_world\<lparr>system_clock := 9, flagCollectorHost := ''cube.example.org'',
                   log_output := [''started''], http_calls := []\<rparr>))))
   \<and> Time_Format example_runtime 7 ''Mon Jan _2 15:04:05 2006'' = ''Thu Jan  1 00:00:07 1970''
   \<and> map req_body
       (new_calls example_world
          (snd (ExportVariables example_runtime ''myevents''
                  ''http://localhost:1080/1.0/event/put'' example_world))) =
     map req_body
       (new_calls (example_world\<lparr>flagCollectorHost := ''cube.example.org'',
                     log_output := [''started'']\<rparr>)
          (snd (ExportVariables example_runtime ''myevents''
                  ''http://cube.example.org:1080/1.0/event/put''
                  (example_world\<lparr>flagCollectorHost := ''cube.example.org'',
                     log_output := [''started'']\<rparr>))))
   \<and> map parse_json
       (map req_body
          (new_calls example_world
             (snd (ExportVariablesWithTimestamp example_runtime ''myevents''
                     ''http://localhost:1080/1.0/event/put'' 7 example_world)))) =
     [Some (JArray [JObject [(''type'', JString ''myevents''),
                             (''time'', JString ''Thu Jan  1 00:00:07 1970''),
                             (''data'', JObject [(''cmdline'', JArray [JString ''app'']),
                                                 (''hits'', JNumber ''7'')])]])]\<close>
proof -
  have time: "Time_Format example_runtime 7 layout = ''Thu Jan  1 00:00:07 1970''" for layout
    by (simp add: example_runtime_def clock_text_def two_digits_def)
  have time_plain: "list_all json_plain (Time_Format example_runtime 7 layout)" for layout
    unfolding time by (simp add: json_plain_def)
  note a = rendered_time_deterministic [where R = example_runtime
        and ?w1.0 = example_world
        and ?w2.0 = "example_world\<lparr>system_clock := 9, flagCollectorHost := ''cube.example.org'',
                       log_output := [''started''], http_calls := []\<rparr>"
        and collectionType = "''myevents''" and timestamp = 7
        and ?url1.0 = "''http://localhost:1080/1.0/event/put''"
        and ?url2.0 = "''http://cube.example.org:1080/1.0/event/put''", unfolded Let_def]
  note b = rendered_time_deterministic [where R = example_runtime
        and ?w1.0 = example_world
        and ?w2.0 = "example_world\<lparr>flagCollectorHost := ''cube.example.org'',
                       log_output := [''started'']\<rparr>"
        and collectionType = "''myevents''" and timestamp = 7
        and ?url1.0 = "''http://localhost:1080/1.0/event/put''"
        and ?url2.0 = "''http://cube.example.org:1080/1.0/event/put''", unfolded Let_def]
  have first: "map req_body
     (new_calls example_world
        (snd (ExportVariablesWithTimestamp example_runtime ''myevents''
                ''http://localhost:1080/1.0/event/put'' 7 example_world))) =
   map req_body
     (new_calls (example_world\<lparr>system_clock := 9, flagCollectorHost := ''cube.example.org'',
                   log_output := [''started''], http_calls := []\<rparr>)
        (snd (ExportVariablesWithTimestamp example_runtime ''myevents''
                ''http://cube.example.org:1080/1.0/event/put'' 7
                (example_world\<lparr>system_clock := 9, flagCollectorHost := ''cube.example.org'',
                   log_output := [''started''], http_calls := []\<rparr>))))"
    using a by simp
  have now: "map req_body
       (new_calls example_world
          (snd (ExportVariables example_runtime ''myevents''
                  ''http://localhost:1080/1.0/event/put'' example_world))) =
     map req_body
       (new_calls (example_world\<lparr>flagCollectorHost := ''cube.example.org'',
                     log_output := [''started'']\<rparr>)
          (snd (ExportVariables example_runtime ''myevents''
                  ''http://cube.example.org:1080/1.0/event/put''
                  (example_world\<lparr>flagCollectorHost := ''cube.example.org'',
                     log_output := [''started'']\<rparr>))))"
    using b by simp
  from a plain_myevents time_plain example_entries_ok
  have json: "map parse_json
       (map req_body
          (new_calls example_world
             (snd (ExportVariablesWithTimestamp example_runtime ''myevents''
                     ''http://localhost:1080/1.0/event/put'' 7 example_world)))) =
     [Some (JArray [JObject [(''type'', JString ''myevents''),
                             (''time'', JString (Time_Format example_runtime 7 ''Mon Jan _2 15:04:05 2006'')),
                             (''data'', JObject (map (entry_json example_runtime) (expvars example_world)))]])]"
    by simp
  show ?thesis
    unfolding json example_entries time using first now by (simp add: time)
qed

text \<open>
  Claim C7 as stated speaks of the same instant, whatever the environment.
  \<^verbatim>\<open>time.Now()\<close> gives the instant in \<^verbatim>\<open>time.Local\<close>, which the environment sets:
  five seconds after the epoch, with the same event type and variables, a process in
  UTC posts \<^verbatim>\<open>00:00:05\<close> and a process one hour east of it posts \<^verbatim>\<open>01:00:05\<close>.
\<close>

theorem same_instant_renders_differently:
  \<open>instant (system_clock (zoned_world 0)) = instant (system_clock (zoned_world 3600))
   \<and> expvars (zoned_world 0) = expvars (zoned_world 3600)
   \<and> map req_body
       (new_calls (zoned_world 0)
          (snd (ExportVariables zoned_runtime ''myevents''
                  ''http://localhost:1080/1.0/event/put'' (zoned_world 0)))) =
       [''['' @ [CHR 0x0A, CHR 0x09, CHR 0x09] @
        ''{'' @ [CHR 0x0A, CHR 0x09, CHR 0x09, CHR 0x09] @
        ''"type": "myevents",'' @ [CHR 0x0A, CHR 0x09, CHR 0x09, CHR 0x09] @
        ''"time": "Thu Jan  1 00:00:05 1970",'' @ [CHR 0x0A, CHR 0x09, CHR 0x09, CHR 0x09] @
        ''"data": { "cmdline": ["app"],"hits": 7 }'' @ [CHR 0x0A, CHR 0x09, CHR 0x09] @
        ''}'' @ [CHR 0x0A, CHR 0x09, CHR 0x09] @
        '']'']
   \<and> map req_body
       (new_calls (zoned_world 3600)
          (snd (ExportVariables zoned_runtime ''myevents''
                  ''http://localhost:1080/1.0/event/put'' (zoned_world 3600)))) =
       [''['' @ [CHR 0x0A, CHR 0x09, CHR 0x09] @
        ''{'' @ [CHR 0x0A, CHR 0x09, CHR 0x09, CHR 0x09] @
        ''"type": "myevents",'' @ [CHR 0x0A, CHR 0x09, CHR 0x09, CHR 0x09] @
        ''"time": "Thu Jan  1 01:00:05 1970",'' @ [CHR 0x0A, CHR 0x09, CHR 0x09, CHR 0x09] @
        ''"data": { "cmdline": ["app"],"hits": 7 }'' @ [CHR 0x0A, CHR 0x09, CHR 0x09] @
        ''}'' @ [CHR 0x0A, CHR 0x09, CHR 0x09] @
        '']'']\<close>
proof -
  have now: "new_calls v (snd (ExportVariables R collectionType url v)) =
      new_calls v (snd (ExportVariablesWithTimestamp R collectionType url (system_clock v) v))"
    for v :: "zoned_time world" and url R collectionType
    by (simp add: ExportVariables_def time_Now_def)
  show ?thesis
    unfolding now new_calls_export
    by (simp add: zoned_world_def zoned_runtime_def example_runtime_def build_request_def
          collect_variables_map clock_text_def two_digits_def FormatInt_def decimal_digit)
qed

subsection \<open>What a single export changes\<close>

text \<open>
  Claim C8, as amended. \<open>ExportVariablesWithTimestamp\<close> and \<open>ExportVariables\<close>
  change the world in two places only: the one call of \<^verbatim>\<open>http.Post\<close> is recorded,
  and, when that call fails, two lines are written to the log. The registry is
  untouched, so no published variable changes, and in particular not the counter
  \<^verbatim>\<open>CubeExports\<close> of the periodic loop.
\<close>

theorem single_export_frame:
  "let request = (\<lambda>timestamp. build_request R collectionType timestamp
                    (collect_variables R (expvars w)));
       effect = (\<lambda>timestamp result.
          w\<lparr>http_calls := http_calls w @
               [\<lparr>req_url = putUrl, req_contentType = ''application/json'',
                 req_body = request timestamp\<rparr>],
            log_output := log_output w @
               (case result of
                  None \<Rightarrow> []
                | Some err \<Rightarrow>
                    [''Error POSTing events to Cube collector: '' @ error_text err,
                     ''The request we tried to post: '' @ request timestamp])\<rparr>);
       with_timestamp = ExportVariablesWithTimestamp R collectionType putUrl timestamp w;
       now = ExportVariables R collectionType putUrl w
   in snd with_timestamp = effect timestamp (fst with_timestamp)
    \<and> snd now = effect (system_clock w) (fst now)
    \<and> expvars (snd with_timestamp) = expvars w
    \<and> expvars (snd now) = expvars w
    \<and> Int_Value ''CubeExports'' (snd with_timestamp) = Int_Value ''CubeExports'' w
    \<and> Int_Value ''CubeExports'' (snd now) = Int_Value ''CubeExports'' w"
  by (simp add: Let_def ExportVariables_def time_Now_def ExportVariablesWithTimestamp_def
        log_Printf_def Int_Value_def split: sum.split)

theorem single_export_frame_witness:
  "snd (ExportVariablesWithTimestamp example_runtime ''myevents''
          ''http://localhost:1080/1.0/event/put'' 5 example_world) =
     example_world
       \<lparr>http_calls :=
          [\<lparr>req_url = ''http://localhost:1080/1.0/event/put'',
            req_contentType = ''application/json'',
            req_body = build_request example_runtime ''myevents'' 5
              (collect_variables example_runtime (expvars example_world))\<rparr>]\<rparr>
   \<and> Int_Value ''hits''
       (snd (ExportVariables refusing_runtime ''myevents''
               ''http://localhost:1080/1.0/event/put'' example_world)) = Some 7"
proof -
  have ok: "fst (ExportVariablesWithTimestamp example_runtime ''myevents''
          ''http://localhost:1080/1.0/event/put'' 5 example_world) = None"
    by (simp add: ExportVariablesWithTimestamp_result example_runtime_def example_world_def)
  have hits: "Int_Value ''hits'' example_world = Some 7"
    by (simp add: Int_Value_def example_world_def)
  have calls: "http_calls example_world = []" and log: "log_output example_world = []"
    by (simp_all add: example_world_def)
  note frame = single_export_frame [where R = example_runtime and w = example_world
      and collectionType = "''myevents''" and timestamp = 5
      and putUrl = "''http://localhost:1080/1.0/event/put''", unfolded Let_def]
  note frame' = single_export_frame [where R = refusing_runtime and w = example_world
      and collectionType = "''myevents''" and timestamp = 5
      and putUrl = "''http://localhost:1080/1.0/event/put''", unfolded Let_def]
  have first: "snd (ExportVariablesWithTimestamp example_runtime ''myevents''
          ''http://localhost:1080/1.0/event/put'' 5 example_world) =
     example_world
       \<lparr>http_calls :=
          [\<lparr>req_url = ''http://localhost:1080/1.0/event/put'',
            req_contentType = ''application/json'',
            req_body = build_request example_runtime ''myevents'' 5
              (collect_variables example_runtime (expvars example_world))\<rparr>]\<rparr>"
    using frame by (simp add: ok calls log)
  have second: "expvars (snd (ExportVariables refusing_runtime ''myevents''
               ''http://localhost:1080/1.0/event/put'' example_world)) = expvars example_world"
    using frame' by blast
  have "Int_Value ''hits''
       (snd (ExportVariables refusing_runtime ''myevents''
               ''http://localhost:1080/1.0/event/put'' example_world)) =
     Int_Value ''hits'' example_world"
    by (simp only: Int_Value_def second)
  with first hits show ?thesis by (simp only: simp_thms)
qed

text \<open>
  Claim C8 as stated has building the request and the one POST as the only effects. A
  failing export also writes to the log: here the log is empty before the call and
  holds two lines after it.
\<close>

theorem failing_export_writes_log:
  "log_output example_world = []
   \<and> map (take 30)
        (log_output (snd (ExportVariablesWithTimestamp refusing_runtime ''myevents''
                            ''http://localhost:1080/1.0/event/put'' 5 example_world))) =
       [''Error POSTing events to Cube c'', ''The request we tried to post: '']"
  by (simp add: ExportVariablesWithTimestamp_def Let_def log_Printf_def refusing_runtime_def
        example_world_def)

subsection \<open>The two entry points of a single export\<close>

text \<open>
  Claim C9. \<open>ExportVariables\<close> is \<open>ExportVariablesWithTimestamp\<close> called with
  the time \<^verbatim>\<open>time.Now()\<close> returns at the call, on the same world: same result, same
  effects. Reading the clock changes nothing.
\<close>

theorem ExportVariables_uses_current_time:
  "ExportVariables R collectionType putUrl w =
     ExportVariablesWithTimestamp R collectionType putUrl (system_clock w) w
   \<and> time_Now w = (system_clock w, w)"
  by (simp add: ExportVariables_def time_Now_def)

theorem ExportVariables_uses_current_time_witness:
  "ExportVariables example_runtime ''myevents'' ''http://localhost:1080/1.0/event/put''
     example_world =
   ExportVariablesWithTimestamp example_runtime ''myevents''
     ''http://localhost:1080/1.0/event/put'' 3 example_world"
  using ExportVariables_uses_current_time [where R = example_runtime and w = example_world
      and collectionType = "''myevents''" and putUrl = "''http://localhost:1080/1.0/event/put''"]
  by (simp add: example_world_def)

end
